theory Spec2Isabelle
  imports Complex_Main "HOL-Library.AList" "HOL-Library.List_Lexorder"
begin

section \<open>Common data: Python errors and tensors\<close>

text \<open>
  Every exception the modelled code can raise is a value of \<open>error\<close>; a function that can
  raise returns \<open>error + 'a\<close> with \<open>Inl\<close> for the exception.
\<close>

datatype error =
    AssertionError | KeyError | IndexError | ValueError | RuntimeError
  | StopIteration | TypeError | ZeroDivisionError

text \<open>
  A torch tensor is its shape together with its elements, read at a full index.
  Elements are reals, as every floating point number is one. Floating point arithmetic
  rounds: where a result of the code is a rounded sum or product, the operation is a
  parameter of the function that computes it.
  A 0-dimensional tensor has shape \<open>[]\<close> and its single element sits at index \<open>[]\<close>.
\<close>

record tensor =
  shape :: "nat list"
  elem :: "nat list \<Rightarrow> real"

definition dim :: "tensor \<Rightarrow> nat" where
  "dim t = length (shape t)"

definition scalar :: "real \<Rightarrow> tensor" where
  "scalar x = \<lparr>shape = [], elem = (\<lambda>_. x)\<rparr>"

definition item :: "tensor \<Rightarrow> real" where
  "item t = elem t []"

definition zeros :: "nat list \<Rightarrow> tensor" where
  "zeros shp = \<lparr>shape = shp, elem = (\<lambda>_. 0)\<rparr>"

text \<open>\<open>len(t)\<close>: the size of the first dimension; a 0-dimensional tensor has no length.\<close>

definition tensor_len :: "tensor \<Rightarrow> error + nat" where
  "tensor_len t = (case shape t of [] \<Rightarrow> Inl TypeError | n # _ \<Rightarrow> Inr n)"

text \<open>
  Index normalisation of torch: an index \<open>i\<close> into a dimension of size \<open>n\<close> is valid when
  \<open>-n \<le> i < n\<close>, negative indices counting from the end; anything else is an IndexError.
\<close>

definition wrap_index :: "nat \<Rightarrow> int \<Rightarrow> error + nat" where
  "wrap_index n i =
     (if - int n \<le> i \<and> i < int n then Inr (nat (if i < 0 then i + int n else i))
      else Inl IndexError)"

text \<open>\<open>t[i]\<close> for one integer index: the \<open>i\<close>-th slice along the first dimension.\<close>

definition tensor_select :: "tensor \<Rightarrow> int \<Rightarrow> error + tensor" where
  "tensor_select t i =
     (case shape t of
        [] \<Rightarrow> Inl IndexError
      | n # rest \<Rightarrow>
          (case wrap_index n i of
             Inl e \<Rightarrow> Inl e
           | Inr j \<Rightarrow> Inr \<lparr>shape = rest, elem = (\<lambda>idx. elem t (j # idx))\<rparr>))"

section \<open>inference.py: the empirical Sampler\<close>

text \<open>
  \<open>samples\<close> is a Python dict (insertion ordered) from site names to tensors whose first
  dimension enumerates the stored draws.
\<close>

type_synonym samples_dict = "(string \<times> tensor) list"

record Sampler =
  samples :: samples_dict
  num_samples :: nat

text \<open>
  \<open>Sampler.__init__\<close>: \<open>next(iter(samples.values()))\<close> raises StopIteration on an empty
  dict, and \<open>len\<close> is taken of the first value only.
\<close>

definition Sampler_init :: "samples_dict \<Rightarrow> error + Sampler" where
  "Sampler_init smp =
     (case smp of
        [] \<Rightarrow> Inl StopIteration
      | (k, v) # _ \<Rightarrow>
          (case tensor_len v of
             Inl e \<Rightarrow> Inl e
           | Inr n \<Rightarrow> Inr \<lparr>samples = smp, num_samples = n\<rparr>))"

text \<open>
  \<open>torch.randint(low, high, ())\<close> raises a RuntimeError unless \<open>low < high\<close>; otherwise it
  returns one of the integers \<open>low, ..., high - 1\<close>, each with the same probability. The
  uniform choice is represented by the list of its equally likely outcomes.
\<close>

definition randint :: "int \<Rightarrow> int \<Rightarrow> error + int list" where
  "randint low high = (if low < high then Inr [low..high - 1] else Inl RuntimeError)"

text \<open>The dict comprehension \<open>{k: v[i] for k, v in self.samples.items()}\<close>.\<close>

fun select_all :: "samples_dict \<Rightarrow> int \<Rightarrow> error + samples_dict" where
  "select_all [] i = Inr []"
| "select_all ((k, v) # kvs) i =
     (case tensor_select v i of
        Inl e \<Rightarrow> Inl e
      | Inr x \<Rightarrow>
          (case select_all kvs i of
             Inl e \<Rightarrow> Inl e
           | Inr r \<Rightarrow> Inr ((k, x) # r)))"

text \<open>
  \<open>Sampler.__call__\<close>: either \<open>randint\<close> raises, or the call has one equally likely outcome
  per index; an outcome is the returned dict (or the exception of the comprehension)
  together with the sampler object after the call.
\<close>

definition Sampler_call :: "Sampler \<Rightarrow> error + ((error + samples_dict) \<times> Sampler) list" where
  "Sampler_call s =
     (case randint 0 (int (num_samples s)) of
        Inl e \<Rightarrow> Inl e
      | Inr is \<Rightarrow> Inr (map (\<lambda>i. (select_all (samples s) i, s)) is))"

text \<open>
  \<open>fit_mcmc\<close> runs the NUTS kernel of Pyro and wraps what \<open>mcmc.get_samples()\<close> returns;
  the run itself is library code, so its result is the argument here.
\<close>

definition fit_mcmc :: "samples_dict \<Rightarrow> error + Sampler" where
  "fit_mcmc mcmc_samples = Sampler_init mcmc_samples"

text \<open>The \<open>i\<close>-th stored draw of one site, and of every site.\<close>

definition draw_at :: "tensor \<Rightarrow> nat \<Rightarrow> tensor" where
  "draw_at v i = \<lparr>shape = tl (shape v), elem = (\<lambda>idx. elem v (i # idx))\<rparr>"

definition joint_draw :: "samples_dict \<Rightarrow> nat \<Rightarrow> samples_dict" where
  "joint_draw smp i = map (\<lambda>(k, v). (k, draw_at v i)) smp"

section \<open>inference.py: fit_svi\<close>

text \<open>
  The state of Pyro that \<open>fit_svi\<close> touches: the global parameter store and the global
  random stream.
\<close>

record pyro_state =
  param_store :: "string \<rightharpoonup> tensor"
  rng_state :: nat

text \<open>\<open>pyro.clear_param_store()\<close>.\<close>

definition clear_param_store :: "pyro_state \<Rightarrow> pyro_state" where
  "clear_param_store st = st\<lparr>param_store := Map.empty\<rparr>"

text \<open>
  The decay factor handed to the optimizer, \<open>0.1 ** (1 / num_steps)\<close>. The division is
  Python's true division and raises for \<open>num_steps = 0\<close>.
\<close>

definition lrd :: "int \<Rightarrow> error + real" where
  "lrd num_steps =
     (if num_steps = 0 then Inl ZeroDivisionError
      else Inr ((1 / 10) powr (1 / real_of_int num_steps)))"

text \<open>
  What the loop of \<open>fit_svi\<close> carries: the learning rate held by the optimizer, the list
  \<open>losses\<close>, the lines printed, and the state of Pyro.
\<close>

record svi_run =
  cur_lr :: real
  losses :: "real list"
  printed :: "(nat \<times> real) list"
  pyro :: pyro_state

text \<open>
  One pass of the loop body. \<open>svi.step()\<close> is library code: \<open>svi_step\<close> stands for it, for
  the model, guide and loss that \<open>fit_svi\<close> has built, as a function of the learning rate
  in force and of the state of Pyro, returning the loss and the new state. ClippedAdam
  multiplies its learning rate by \<open>lrd\<close> once in every step.
\<close>

definition svi_iteration ::
  "(real \<Rightarrow> pyro_state \<Rightarrow> real \<times> pyro_state) \<Rightarrow> real \<Rightarrow> nat \<Rightarrow> nat \<Rightarrow> svi_run \<Rightarrow> svi_run" where
  "svi_iteration svi_step decay log_every step r =
     (let lr' = cur_lr r * decay;
          (loss, st') = svi_step lr' (pyro r)
      in \<lparr>cur_lr = lr',
          losses = losses r @ [loss],
          printed = (if log_every \<noteq> 0 \<and> step mod log_every = 0
                     then printed r @ [(step, loss)] else printed r),
          pyro = st'\<rparr>)"

text \<open>
  \<open>fit_svi\<close>: the parameter store is cleared first, then the guide and the optimizer are
  built (the latter raises for \<open>num_steps = 0\<close>), then \<open>range(num_steps)\<close> steps run. The
  returned guide reads its parameters from the parameter store, so the final run record
  stands for it. Plotting is left out.
\<close>

definition fit_svi ::
  "(real \<Rightarrow> pyro_state \<Rightarrow> real \<times> pyro_state) \<Rightarrow> real \<Rightarrow> int \<Rightarrow> nat \<Rightarrow> pyro_state
     \<Rightarrow> (error + svi_run) \<times> pyro_state" where
  "fit_svi svi_step lr num_steps log_every st =
     (let st0 = clear_param_store st in
      case lrd num_steps of
        Inl e \<Rightarrow> (Inl e, st0)
      | Inr decay \<Rightarrow>
          (let r = fold (svi_iteration svi_step decay log_every) [0..<nat num_steps]
                     \<lparr>cur_lr = lr, losses = [], printed = [], pyro = st0\<rparr>
           in (Inr r, pyro r)))"

section \<open>models.py: linear_response\<close>

text \<open>
  A schema is an OrderedDict from variable names to the list of their categories; the
  coefficients are a dict from feature blocks (tuples of variable names) or \<open>None\<close> (the
  key of the coefficients of the extra features) to tensors. Both are association
  lists in insertion order, whose keys are distinct as the keys of a dict are.
\<close>

type_synonym Schema = "(string \<times> string list) list"
type_synonym Blocks = "string list list"
type_synonym Coefs = "(string list option \<times> tensor) list"

text \<open>
  The arithmetic of \<open>linear_response\<close> is that of float tensors: \<open>result + ...\<close> rounds
  and is not associative (in float32, \<open>1e8 + 1\<close> is \<open>1e8\<close>), and \<open>@\<close> is the product of
  the library. Both are parameters below: \<open>add\<close> is the addition of two 0-dimensional
  tensors as torch computes it, \<open>matvec\<close> is \<open>extra_features @ coefs[None]\<close>. The exact
  operations of the reals, \<open>(+)\<close> and \<open>dot\<close>, are one instance.
\<close>

definition dot :: "real list \<Rightarrow> tensor \<Rightarrow> real" where
  "dot x c = (\<Sum>j\<leftarrow>[0..<length x]. x ! j * elem c [j])"

text \<open>\<open>coef[index]\<close> for a tuple of integer indices, one dimension after the other.\<close>

fun tensor_getitem :: "tensor \<Rightarrow> int list \<Rightarrow> error + tensor" where
  "tensor_getitem t [] = Inr t"
| "tensor_getitem t (i # idx) =
     (case tensor_select t i of
        Inl e \<Rightarrow> Inl e
      | Inr t' \<Rightarrow> tensor_getitem t' idx)"

text \<open>\<open>tuple(choices[name] for name in key)\<close>: a name that is no key raises KeyError.\<close>

fun lookup_choices :: "(string \<rightharpoonup> int) \<Rightarrow> string list \<Rightarrow> error + int list" where
  "lookup_choices choices [] = Inr []"
| "lookup_choices choices (name # names) =
     (case choices name of
        None \<Rightarrow> Inl KeyError
      | Some i \<Rightarrow>
          (case lookup_choices choices names of
             Inl e \<Rightarrow> Inl e
           | Inr idx \<Rightarrow> Inr (i # idx)))"

text \<open>
  The assertions at the head of \<open>linear_response\<close>, for one design: \<open>sequence\<close> is a
  1-dimensional tensor of integers and \<open>extra_features\<close>, when given, a 1-dimensional
  tensor of reals. The \<open>isinstance\<close> and \<open>dtype\<close> assertions hold by the types.
\<close>

definition linear_response_asserts :: "Schema \<Rightarrow> Coefs \<Rightarrow> int list \<Rightarrow> real list option \<Rightarrow> bool" where
  "linear_response_asserts schema coefs sequence extra_features =
     (length sequence = length schema \<and>
      (case extra_features of
         None \<Rightarrow> map_of coefs None = None
       | Some x \<Rightarrow>
           (case map_of coefs None of
              None \<Rightarrow> False
            | Some c \<Rightarrow> dim c = 1 \<and> [length x] = shape c)))"

text \<open>
  The loop over \<open>coefs.items()\<close>, with \<open>result\<close> as the accumulator, updated by
  \<open>result = result + ...\<close> in the order of the dict.
\<close>

fun response_loop ::
  "(real \<Rightarrow> real \<Rightarrow> real) \<Rightarrow> (real list \<Rightarrow> tensor \<Rightarrow> real) \<Rightarrow> (string \<rightharpoonup> int) \<Rightarrow> real list option
     \<Rightarrow> Coefs \<Rightarrow> Coefs \<Rightarrow> real \<Rightarrow> error + real" where
  "response_loop add matvec choices extra_features coefs [] result = Inr result"
| "response_loop add matvec choices extra_features coefs ((None, coef) # items) result =
     (case extra_features of
        None \<Rightarrow> Inl AssertionError
      | Some x \<Rightarrow>
          (case map_of coefs None of
             None \<Rightarrow> Inl KeyError
           | Some c \<Rightarrow>
               response_loop add matvec choices extra_features coefs items (add result (matvec x c))))"
| "response_loop add matvec choices extra_features coefs ((Some key, coef) # items) result =
     (if dim coef \<noteq> length key then Inl AssertionError
      else case lookup_choices choices key of
        Inl e \<Rightarrow> Inl e
      | Inr index \<Rightarrow>
          (case tensor_getitem coef index of
             Inl e \<Rightarrow> Inl e
           | Inr c \<Rightarrow>
               response_loop add matvec choices extra_features coefs items (add result (item c))))"

text \<open>
  \<open>linear_response\<close> outside a traced (JIT) execution, where all its assertions run.
  \<open>choices\<close> is \<open>dict(zip(schema, sequence.unbind(-1)))\<close>, and \<open>result\<close> starts as
  \<open>torch.tensor(0.0)\<close>.
\<close>

definition linear_response ::
  "(real \<Rightarrow> real \<Rightarrow> real) \<Rightarrow> (real list \<Rightarrow> tensor \<Rightarrow> real) \<Rightarrow> Schema \<Rightarrow> Coefs \<Rightarrow> int list
     \<Rightarrow> real list option \<Rightarrow> error + real" where
  "linear_response add matvec schema coefs sequence extra_features =
     (if \<not> linear_response_asserts schema coefs sequence extra_features then Inl AssertionError
      else response_loop add matvec (map_of (zip (map fst schema) sequence)) extra_features
             coefs coefs 0)"

subsection \<open>The sum of per-block lookups, in the words of the specification\<close>






section \<open>The experiment\<close>

text \<open>
  An experiment is the dict with the keys \<open>sequences\<close> (a 2-dimensional tensor of
  category indices, here the list of its rows), \<open>batch_ids\<close> (non-negative integers) and,
  optionally, \<open>responses\<close>.
\<close>

record Experiment =
  sequences :: "int list list"
  batch_ids :: "nat list"
  responses :: "real list option"

section \<open>models.py: model\<close>

text \<open>
  The model is a probabilistic program. Its randomness is made explicit: the random
  source \<open>\<omega>\<close> gives, for a sample site and an element index, the value that the sampler
  produces there, and every \<open>pyro.sample\<close> appends the site to a trace. A run of the real
  program is the run of the model under some \<open>\<omega>\<close> whose values lie in the supports of the
  distributions. The model is the program called directly, outside a traced (JIT)
  execution and with \<open>__debug__\<close> on, so that all its checks run.
\<close>

type_synonym random_source = "string \<Rightarrow> nat list \<Rightarrow> real"

datatype dist =
    Normal tensor real
  | LogNormal real real
  | Binomial nat tensor
  | Delta

record site =
  site_name :: string
  site_dist :: dist
  site_value :: tensor
  site_observed :: bool

type_synonym trace = "site list"

text \<open>\<open>pyro.sample(name, dist, obs=obs)\<close> for a sample of shape \<open>shp\<close>, and \<open>pyro.deterministic\<close>.\<close>

definition pyro_sample ::
  "random_source \<Rightarrow> string \<Rightarrow> dist \<Rightarrow> nat list \<Rightarrow> tensor option \<Rightarrow> trace \<Rightarrow> tensor \<times> trace" where
  "pyro_sample \<omega> name d shp obs tr =
     (let v = (case obs of Some observed \<Rightarrow> observed | None \<Rightarrow> \<lparr>shape = shp, elem = \<omega> name\<rparr>)
      in (v, tr @ [\<lparr>site_name = name, site_dist = d, site_value = v, site_observed = (obs \<noteq> None)\<rparr>]))"

definition pyro_deterministic :: "string \<Rightarrow> tensor \<Rightarrow> trace \<Rightarrow> tensor \<times> trace" where
  "pyro_deterministic name v tr =
     (v, tr @ [\<lparr>site_name = name, site_dist = Delta, site_value = v, site_observed = False\<rparr>])"

text \<open>A 1-dimensional tensor from the list of its elements.\<close>

definition vector :: "real list \<Rightarrow> tensor" where
  "vector xs = \<lparr>shape = [length xs], elem = (\<lambda>idx. case idx of [n] \<Rightarrow> xs ! n | _ \<Rightarrow> 0)\<rparr>"

text \<open>Python's \<open>str\<close> of a non-negative integer, and \<open>sep.join\<close>.\<close>

function str_nat :: "nat \<Rightarrow> string" where
  "str_nat n =
     (if n < 10 then [''0123456789'' ! n]
      else str_nat (n div 10) @ [''0123456789'' ! (n mod 10)])"
  by pat_completeness auto
termination
  by (relation "measure id") auto

declare str_nat.simps [simp del]

fun join :: "string \<Rightarrow> string list \<Rightarrow> string" where
  "join sep [] = []"
| "join sep [s] = s"
| "join sep (s # t # ss) = s @ sep @ join sep (t # ss)"

text \<open>\<open>name_to_int[name]\<close>: the position of a variable in the schema.\<close>

fun name_to_int :: "Schema \<Rightarrow> string \<Rightarrow> nat" where
  "name_to_int [] name = 0"
| "name_to_int ((k, v) # schema) name = (if k = name then 0 else Suc (name_to_int schema name))"

text \<open>
  \<open>tuple(len(schema[name]) for name in block)\<close>: the domain sizes of the block's variables;
  a name that the schema lacks raises KeyError.
\<close>

fun block_shape :: "Schema \<Rightarrow> string list \<Rightarrow> error + nat list" where
  "block_shape schema [] = Inr []"
| "block_shape schema (name # names) =
     (case map_of schema name of
        None \<Rightarrow> Inl KeyError
      | Some domain \<Rightarrow>
          (case block_shape schema names of
             Inl e \<Rightarrow> Inl e
           | Inr shp \<Rightarrow> Inr (length domain # shp)))"

definition block_suffix :: "Schema \<Rightarrow> string list \<Rightarrow> string" where
  "block_suffix schema block = join ''_'' (map (\<lambda>name. str_nat (name_to_int schema name)) block)"

text \<open>
  The loop over \<open>trivial_blocks + feature_blocks\<close>: for each block a coefficient scale and a
  coefficient tensor of the block's shape; \<open>coefs[tuple(block)] = ...\<close> is a dict assignment.
\<close>

fun sample_coefs ::
  "random_source \<Rightarrow> Schema \<Rightarrow> real \<Rightarrow> real \<Rightarrow> Blocks \<Rightarrow> Coefs \<Rightarrow> trace \<Rightarrow> trace \<times> (error + Coefs)" where
  "sample_coefs \<omega> schema coef_scale_loc coef_scale_scale [] coefs tr = (tr, Inr coefs)"
| "sample_coefs \<omega> schema coef_scale_loc coef_scale_scale (block # blocks) coefs tr =
     (case block_shape schema block of
        Inl e \<Rightarrow> (tr, Inl e)
      | Inr shp \<Rightarrow>
          (let suffix = block_suffix schema block;
               (coef_scale, tr1) = pyro_sample \<omega> (''coef_scale_'' @ suffix)
                                     (LogNormal coef_scale_loc coef_scale_scale) [] None tr;
               (coef, tr2) = pyro_sample \<omega> (''coef_'' @ suffix)
                               (Normal (zeros shp) (item coef_scale)) shp None tr1
           in sample_coefs \<omega> schema coef_scale_loc coef_scale_scale blocks
                (AList.update (Some block) coef coefs) tr2))"

text \<open>
  "Hierarchically sample linear coefficients": the two hyperparameters, the loop over
  the blocks, and the coefficients of the extra features when there are any
  (\<open>extra_features.shape[-1:]\<close> is the last dimension).
\<close>

definition model_coefficients ::
  "random_source \<Rightarrow> Schema \<Rightarrow> Blocks \<Rightarrow> tensor option \<Rightarrow> trace \<times> (error + Coefs)" where
  "model_coefficients \<omega> schema feature_blocks extra_features =
     (let (coef_scale_loc, tr1) = pyro_sample \<omega> ''coef_scale_loc'' (Normal (scalar (- 2)) 1) [] None [];
          (coef_scale_scale, tr2) = pyro_sample \<omega> ''coef_scale_scale'' (LogNormal 0 1) [] None tr1
      in case sample_coefs \<omega> schema (item coef_scale_loc) (item coef_scale_scale)
                ([] # feature_blocks) [] tr2 of
           (tr3, Inl e) \<Rightarrow> (tr3, Inl e)
         | (tr3, Inr coefs) \<Rightarrow>
             (case extra_features of
                None \<Rightarrow> (tr3, Inr coefs)
              | Some x \<Rightarrow>
                  (let shp = drop (length (shape x) - 1) (shape x);
                       (coef_scale, tr4) = pyro_sample \<omega> ''coef_scale''
                           (LogNormal (item coef_scale_loc) (item coef_scale_scale)) [] None tr3;
                       (coef, tr5) = pyro_sample \<omega> ''coef''
                           (Normal (zeros shp) (item coef_scale)) shp None tr4
                   in (tr5, Inr (AList.update None coef coefs)))))"

text \<open>
  \<open>max_batch_id\<close> defaults to \<open>int(experiment["batch_ids"].max())\<close>, which raises on an
  empty tensor.
\<close>

definition resolve_max_batch_id :: "nat option \<Rightarrow> nat list \<Rightarrow> error + nat" where
  "resolve_max_batch_id max_batch_id ids =
     (case max_batch_id of
        Some m \<Rightarrow> Inr m
      | None \<Rightarrow> (case ids of [] \<Rightarrow> Inl RuntimeError | b # bs \<Rightarrow> Inr (fold max bs b)))"

text \<open>
  The checks under \<open>__debug__\<close>. \<open>validate\<close> lives in \<open>pyroed/typing.py\<close>, which is not among
  the sources: it enters as a parameter that sees the schema and the experiment only
  and returns the exception it raises, if any.
\<close>

definition model_checks ::
  "(Schema \<Rightarrow> Experiment \<Rightarrow> error option) \<Rightarrow> Schema \<Rightarrow> tensor option \<Rightarrow> Experiment \<Rightarrow> error option" where
  "model_checks validate schema extra_features e =
     (case validate schema e of
        Some err \<Rightarrow> Some err
      | None \<Rightarrow>
          (case extra_features of
             None \<Rightarrow> None
           | Some x \<Rightarrow>
               if dim x \<noteq> 2 then Some AssertionError
               else if hd (shape x) \<noteq> length (sequences e) then Some AssertionError
               else None))"

text \<open>
  \<open>linear_response\<close> on the 2-dimensional \<open>sequences\<close>, row by row; row \<open>n\<close> of the extra
  features goes with row \<open>n\<close> of the sequences. All rows of a tensor have one length.
  The values of the response enter the model only as the location of the likelihood;
  they are computed here with the exact operations.
\<close>

definition feature_row :: "tensor option \<Rightarrow> nat \<Rightarrow> real list option" where
  "feature_row extra_features n =
     map_option (\<lambda>x. map (\<lambda>j. elem x [n, j]) [0..<last (shape x)]) extra_features"

fun linear_response_rows ::
  "Schema \<Rightarrow> Coefs \<Rightarrow> int list list \<Rightarrow> tensor option \<Rightarrow> nat \<Rightarrow> error + real list" where
  "linear_response_rows schema coefs [] extra_features n = Inr []"
| "linear_response_rows schema coefs (row # rows) extra_features n =
     (case linear_response (+) dot schema coefs row (feature_row extra_features n) of
        Inl e \<Rightarrow> Inl e
      | Inr r \<Rightarrow>
          (case linear_response_rows schema coefs rows extra_features (Suc n) of
             Inl e \<Rightarrow> Inl e
           | Inr rs \<Rightarrow> Inr (r # rs)))"

text \<open>\<open>batch_response[experiment["batch_ids"]]\<close>: a batch id beyond the plate raises IndexError.\<close>

fun gather :: "tensor \<Rightarrow> nat list \<Rightarrow> error + real list" where
  "gather t [] = Inr []"
| "gather t (i # ids) =
     (case tensor_select t (int i) of
        Inl e \<Rightarrow> Inl e
      | Inr x \<Rightarrow> (case gather t ids of Inl e \<Rightarrow> Inl e | Inr xs \<Rightarrow> Inr (item x # xs)))"

text \<open>
  "Model batch effects": with a single batch (\<open>B = 1\<close>) nothing is sampled and the location
  is the linear response; otherwise the across-batch scale and one offset per batch are
  sampled and the offset of each row's batch is added. An experiment has one batch id
  per row; vectors of different lengths are refused here with the RuntimeError of a
  failed broadcast, also where one of them has length one, which torch would stretch.
\<close>

definition batch_effect ::
  "random_source \<Rightarrow> nat \<Rightarrow> nat list \<Rightarrow> real list \<Rightarrow> trace \<Rightarrow> trace \<times> (error + real list)" where
  "batch_effect \<omega> B ids response_loc tr =
     (if B = 1 then (tr, Inr response_loc)
      else
        (let (across_batch_scale, tr1) = pyro_sample \<omega> ''across_batch_scale'' (LogNormal 0 1) [] None tr;
             (batch_response, tr2) = pyro_sample \<omega> ''batch_response''
                                       (Normal (scalar 0) (item across_batch_scale)) [B] None tr1
         in case gather batch_response ids of
              Inl e \<Rightarrow> (tr2, Inl e)
            | Inr offsets \<Rightarrow>
                if length offsets \<noteq> length response_loc then (tr2, Inl RuntimeError)
                else (tr2, Inr (map2 (+) response_loc offsets))))"

text \<open>\<open>torch.round\<close> rounds halves to the even neighbour.\<close>

definition round_half_even :: "real \<Rightarrow> int" where
  "round_half_even x =
     (let f = \<lfloor>x\<rfloor>; d = x - of_int f
      in if d < 1 / 2 then f else if 1 / 2 < d then f + 1 else if even f then f else f + 1)"

text \<open>
  "Observe a noisy response", inside \<open>pyro.plate("data", N)\<close>; a plate of size zero is
  refused by Pyro with a ZeroDivisionError. Under \<open>unit_interval\<close> without observed
  responses the quantized draw divided by \<open>quantization_bins\<close> is exposed as the site
  \<open>responses\<close>; the quotient is that of the reals, so \<open>quantization_bins = 0\<close>, where torch
  yields \<open>nan\<close>, is outside the model. Observed responses are quantized by rounding the
  product of the reals, where torch rounds the product of the floats.
\<close>

definition likelihood ::
  "random_source \<Rightarrow> Experiment \<Rightarrow> string \<Rightarrow> nat \<Rightarrow> real list \<Rightarrow> real \<Rightarrow> trace \<Rightarrow> trace \<times> (error + unit)" where
  "likelihood \<omega> e response_type quantization_bins within_batch_loc within_batch_scale tr =
     (let N = length (sequences e) in
      if N = 0 then (tr, Inl ZeroDivisionError)
      else if response_type = ''real'' then
        (let (r, tr1) = pyro_sample \<omega> ''responses'' (Normal (vector within_batch_loc) within_batch_scale)
                          [N] (map_option vector (responses e)) tr
         in (tr1, Inr ()))
      else if response_type = ''unit_interval'' then
        (let (logits, tr1) = pyro_sample \<omega> ''logits'' (Normal (vector within_batch_loc) within_batch_scale)
                               [N] None tr;
             quantized_obs = map_option
               (\<lambda>r. vector (map (\<lambda>x. of_int (round_half_even (x * real quantization_bins))) r))
               (responses e);
             (quantized, tr2) = pyro_sample \<omega> ''quantized_response'' (Binomial quantization_bins logits)
                                  [N] quantized_obs tr1
         in case responses e of
              None \<Rightarrow>
                (let (r, tr3) = pyro_deterministic ''responses''
                       \<lparr>shape = shape quantized,
                        elem = (\<lambda>idx. elem quantized idx / real quantization_bins)\<rparr> tr2
                 in (tr3, Inr ()))
            | Some r \<Rightarrow> (tr2, Inr ()))
      else (tr, Inl ValueError))"

text \<open>
  The part of \<open>model\<close> before the batch effect: the default of \<open>max_batch_id\<close>, the checks,
  the coefficients, the linear response and the within-batch scale. It returns the
  coefficients, the linear response of every row, the within-batch scale and \<open>B\<close>.
\<close>

definition model_latents ::
  "(Schema \<Rightarrow> Experiment \<Rightarrow> error option) \<Rightarrow> random_source \<Rightarrow> Schema \<Rightarrow> Blocks \<Rightarrow> tensor option
     \<Rightarrow> Experiment \<Rightarrow> nat option \<Rightarrow> trace \<times> (error + Coefs \<times> real list \<times> real \<times> nat)" where
  "model_latents validate \<omega> schema feature_blocks extra_features e max_batch_id =
     (case resolve_max_batch_id max_batch_id (batch_ids e) of
        Inl err \<Rightarrow> ([], Inl err)
      | Inr m \<Rightarrow>
     (case model_checks validate schema extra_features e of
        Some err \<Rightarrow> ([], Inl err)
      | None \<Rightarrow>
     (case model_coefficients \<omega> schema feature_blocks extra_features of
        (tr, Inl err) \<Rightarrow> (tr, Inl err)
      | (tr, Inr coefs) \<Rightarrow>
     (case linear_response_rows schema coefs (sequences e) extra_features 0 of
        Inl err \<Rightarrow> (tr, Inl err)
      | Inr response_loc \<Rightarrow>
          (let (within_batch_scale, tr1) =
                 pyro_sample \<omega> ''within_batch_scale'' (LogNormal 0 1) [] None tr
           in (tr1, Inr (coefs, response_loc, item within_batch_scale, 1 + m)))))))"

text \<open>\<open>model\<close>: the latent part, the batch effect, the likelihood; it returns \<open>coefs\<close>.\<close>

definition model ::
  "(Schema \<Rightarrow> Experiment \<Rightarrow> error option) \<Rightarrow> random_source \<Rightarrow> Schema \<Rightarrow> Blocks \<Rightarrow> tensor option
     \<Rightarrow> Experiment \<Rightarrow> nat option \<Rightarrow> string \<Rightarrow> nat \<Rightarrow> trace \<times> (error + Coefs)" where
  "model validate \<omega> schema feature_blocks extra_features e max_batch_id response_type quantization_bins =
     (case model_latents validate \<omega> schema feature_blocks extra_features e max_batch_id of
        (tr, Inl err) \<Rightarrow> (tr, Inl err)
      | (tr, Inr (coefs, response_loc, within_batch_scale, B)) \<Rightarrow>
     (case batch_effect \<omega> B (batch_ids e) response_loc tr of
        (tr1, Inl err) \<Rightarrow> (tr1, Inl err)
      | (tr1, Inr within_batch_loc) \<Rightarrow>
     (case likelihood \<omega> e response_type quantization_bins within_batch_loc within_batch_scale tr1 of
        (tr2, Inl err) \<Rightarrow> (tr2, Inl err)
      | (tr2, Inr u) \<Rightarrow> (tr2, Inr coefs))))"

subsection \<open>The model without a batch-effect term\<close>

text \<open>
  The same model with the batch term left out: the location of the likelihood is the
  plain linear response.
\<close>

definition model_without_batch_effect ::
  "(Schema \<Rightarrow> Experiment \<Rightarrow> error option) \<Rightarrow> random_source \<Rightarrow> Schema \<Rightarrow> Blocks \<Rightarrow> tensor option
     \<Rightarrow> Experiment \<Rightarrow> nat option \<Rightarrow> string \<Rightarrow> nat \<Rightarrow> trace \<times> (error + Coefs)" where
  "model_without_batch_effect validate \<omega> schema feature_blocks extra_features e max_batch_id
       response_type quantization_bins =
     (case model_latents validate \<omega> schema feature_blocks extra_features e max_batch_id of
        (tr, Inl err) \<Rightarrow> (tr, Inl err)
      | (tr, Inr (coefs, response_loc, within_batch_scale, B)) \<Rightarrow>
     (case likelihood \<omega> e response_type quantization_bins response_loc within_batch_scale tr of
        (tr2, Inl err) \<Rightarrow> (tr2, Inl err)
      | (tr2, Inr u) \<Rightarrow> (tr2, Inr coefs)))"

text \<open>The names of the sites of a trace, and the value of a named site.\<close>

definition site_names :: "trace \<Rightarrow> string list" where
  "site_names tr = map site_name tr"


text \<open>
  The names of the latent sites that precede the batch effect: the within-batch scale
  and the sites of the coefficients, whose names all begin with \<open>coef\<close>.
\<close>

definition latent_site_name :: "string \<Rightarrow> bool" where
  "latent_site_name n \<longleftrightarrow> n = ''within_batch_scale'' \<or> take 4 n = ''coef''"

subsection \<open>Validation of an experiment\<close>

text \<open>
  Modelled from the spec: \<open>validate(schema, experiment=...)\<close> of \<open>pyroed/typing.py\<close>, which
  is not among the sources. By the data model of the specification the columns of an
  experiment have one length, every design has one category index per variable of the
  schema, each within the variable's domain, and the batch ids are dense from 0 upward.
  A violation is an AssertionError.
\<close>

definition validate_experiment :: "Schema \<Rightarrow> Experiment \<Rightarrow> error option" where
  "validate_experiment schema e =
     (if length (batch_ids e) = length (sequences e) \<and>
         (case responses e of None \<Rightarrow> True | Some r \<Rightarrow> length r = length (sequences e)) \<and>
         list_all (\<lambda>row. list_all2 (\<lambda>i entry. 0 \<le> i \<and> i < int (length (snd entry))) row schema)
           (sequences e) \<and>
         list_all (\<lambda>b. b = 0 \<or> b - 1 \<in> set (batch_ids e)) (batch_ids e)
      then None else Some AssertionError)"

section \<open>examples/rollout_tf8.py: accumulating the experiment\<close>

text \<open>
  The exhaustive dataset of the rollout: its sequences and responses, and the dict
  \<open>seq_to_id\<close> from a sequence (as a tuple) to its row number.
\<close>

record dataset =
  data_sequences :: "int list list"
  data_responses :: "real list"
  seq_to_id :: "int list \<rightharpoonup> nat"

text \<open>\<open>list(map(data["seq_to_id"].__getitem__, ...))\<close>: a missing key raises KeyError.\<close>

fun lookup_ids :: "(int list \<rightharpoonup> nat) \<Rightarrow> int list list \<Rightarrow> error + nat list" where
  "lookup_ids m [] = Inr []"
| "lookup_ids m (d # ds) =
     (case m d of
        None \<Rightarrow> Inl KeyError
      | Some i \<Rightarrow> (case lookup_ids m ds of Inl e \<Rightarrow> Inl e | Inr is \<Rightarrow> Inr (i # is)))"

text \<open>\<open>rows[ids]\<close> for a list of row numbers: a row number out of range raises IndexError.\<close>

fun index_rows :: "'a list \<Rightarrow> nat list \<Rightarrow> error + 'a list" where
  "index_rows rows [] = Inr []"
| "index_rows rows (i # is) =
     (if i < length rows
      then (case index_rows rows is of Inl e \<Rightarrow> Inl e | Inr rs \<Rightarrow> Inr (rows ! i # rs))
      else Inl IndexError)"

text \<open>
  \<open>torch.cat\<close> of two 2-dimensional tensors along the first dimension: the rows of both
  must have one width.
\<close>

definition cat_rows :: "int list list \<Rightarrow> int list list \<Rightarrow> error + int list list" where
  "cat_rows a b =
     (case a @ b of
        [] \<Rightarrow> Inr []
      | r # rs \<Rightarrow> if list_all (\<lambda>r'. length r' = length r) rs then Inr (a @ b) else Inl RuntimeError)"

text \<open>
  \<open>update_experiment\<close>. The design is a set of tuples, visited in sorted (lexicographic)
  order. The new rows get \<open>torch.zeros(len(ids)).long()\<close> as their batch ids. The final
  dict comprehension runs over the keys of the old experiment, so \<open>responses\<close> is
  extended only when the old experiment has it.
\<close>

definition update_experiment :: "Experiment \<Rightarrow> int list set \<Rightarrow> dataset \<Rightarrow> error + Experiment" where
  "update_experiment e design data =
     (case lookup_ids (seq_to_id data) (sorted_list_of_set design) of
        Inl err \<Rightarrow> Inl err
      | Inr ids \<Rightarrow>
     (case index_rows (data_sequences data) ids of
        Inl err \<Rightarrow> Inl err
      | Inr new_sequences \<Rightarrow>
     (case index_rows (data_responses data) ids of
        Inl err \<Rightarrow> Inl err
      | Inr new_responses \<Rightarrow>
     (let new_batch_ids = replicate (length ids) 0 in
      case cat_rows (sequences e) new_sequences of
        Inl err \<Rightarrow> Inl err
      | Inr all_sequences \<Rightarrow>
          Inr \<lparr>sequences = all_sequences,
               batch_ids = batch_ids e @ new_batch_ids,
               responses = map_option (\<lambda>r. r @ new_responses) (responses e)\<rparr>))))"

section \<open>Concrete inputs\<close>

text \<open>Two stored draws of two sites, the second site holding vectors of length one.\<close>

definition two_draws :: samples_dict where
  "two_draws =
     [(''coef_0'', \<lparr>shape = [2], elem = (\<lambda>idx. if idx = [0] then 5 else 7)\<rparr>),
      (''coef_1'', \<lparr>shape = [2, 1], elem = (\<lambda>idx. if idx = [0, 0] then 1 else 3)\<rparr>)]"

text \<open>
  A state of Pyro left by an earlier fit, a fresh one with the same random stream, and a
  stand-in for \<open>svi.step()\<close> that stores the learning rate as a parameter.
\<close>

definition old_fit_state :: pyro_state where
  "old_fit_state = \<lparr>param_store = [''AutoLowRankMultivariateNormal.loc'' \<mapsto> scalar 4], rng_state = 7\<rparr>"

definition fresh_state :: pyro_state where
  "fresh_state = \<lparr>param_store = Map.empty, rng_state = 7\<rparr>"

definition store_lr_step :: "real \<Rightarrow> pyro_state \<Rightarrow> real \<times> pyro_state" where
  "store_lr_step l st =
     (l, st\<lparr>param_store := (param_store st)(''lr'' \<mapsto> scalar l), rng_state := Suc (rng_state st)\<rparr>)"

text \<open>
  A dataset over two binary variables, and an experiment holding its first row.
\<close>

definition tiny_data :: dataset where
  "tiny_data =
     \<lparr>data_sequences = [[0, 0], [0, 1], [1, 0], [1, 1]],
      data_responses = [1 / 10, 9 / 10, 1 / 2, 3 / 10],
      seq_to_id = [[0, 0] \<mapsto> 0, [0, 1] \<mapsto> 1, [1, 0] \<mapsto> 2, [1, 1] \<mapsto> 3]\<rparr>"

definition tiny_start :: Experiment where
  "tiny_start = \<lparr>sequences = [[0, 0]], batch_ids = [0], responses = Some [1 / 10]\<rparr>"

text \<open>
  Two binary variables; coefficients for the constant block, one block per variable, the
  pair of both, and one extra feature.
\<close>

definition ab_schema :: Schema where
  "ab_schema = [(''a'', [''x'', ''y'']), (''b'', [''x'', ''y''])]"


text \<open>
  Two unobserved designs over \<open>ab_schema\<close> in one batch, and a random source that draws
  \<open>30\<close> at the site \<open>quantized_response\<close>, \<open>5\<close> at the site \<open>responses\<close> and \<open>1\<close> elsewhere.
\<close>

definition two_designs :: Experiment where
  "two_designs = \<lparr>sequences = [[0, 1], [1, 0]], batch_ids = [0, 0], responses = None\<rparr>"

definition fixed_draws :: random_source where
  "fixed_draws name idx =
     (if name = ''quantized_response'' then 30 else if name = ''responses'' then 5 else 1)"

text \<open>A design whose second category index lies outside the domain of its variable.\<close>

definition bad_designs :: Experiment where
  "bad_designs = \<lparr>sequences = [[0, 5]], batch_ids = [0], responses = None\<rparr>"



section \<open>Properties of the Sampler\<close>

lemma tensor_select_in_range:
  assumes "tensor_len v = Inr n" and "i < n"
  shows "tensor_select v (int i) = Inr (draw_at v i)"
  using assms
  by (cases "shape v") (simp_all add: tensor_len_def tensor_select_def wrap_index_def draw_at_def)

lemma select_all_in_range:
  assumes "\<forall>(k, v) \<in> set smp. tensor_len v = Inr n" and "i < n"
  shows "select_all smp (int i) = Inr (joint_draw smp i)"
  using assms
proof (induction smp)
  case Nil
  then show ?case by (simp add: joint_draw_def)
next
  case (Cons kv smp)
  obtain k v where kv: "kv = (k, v)" by (cases kv)
  from Cons.prems kv have "tensor_select v (int i) = Inr (draw_at v i)"
    by (simp add: tensor_select_in_range)
  moreover from Cons have "select_all smp (int i) = Inr (joint_draw smp i)"
    by simp
  ultimately show ?case
    by (simp add: kv joint_draw_def)
qed

lemma upto_as_upt: "[0..int n - 1] = map int [0..<n]"
proof (induction n)
  case 0
  then show ?case by simp
next
  case (Suc n)
  have "[0..int (Suc n) - 1] = [0..int n - 1] @ [int n]"
    using upto_rec2 [of 0 "int n"] by simp
  with Suc show ?case by simp
qed

lemma randint_zero: "randint 0 (int n) = (if 0 < n then Inr (map int [0..<n]) else Inl RuntimeError)"
  by (simp add: randint_def upto_as_upt)


text \<open>
  C7. A Sampler over an empty sample set never yields a draw: constructing it from an
  empty dict raises (StopIteration, also through \<open>fit_mcmc\<close>), and when the stored tensors
  have length zero the constructor records \<open>num_samples = 0\<close> and every call raises
  (RuntimeError of \<open>torch.randint(0, 0, ())\<close>).
\<close>

theorem Sampler_empty_raises:
  "Sampler_init [] = Inl StopIteration \<and> fit_mcmc [] = Inl StopIteration \<and>
   (tensor_len v = Inr 0 \<longrightarrow>
      (\<exists>s. Sampler_init ((k, v) # rest) = Inr s \<and> num_samples s = 0 \<and>
           Sampler_call s = Inl RuntimeError))"
  by (simp add: Sampler_init_def fit_mcmc_def Sampler_call_def randint_def)

theorem Sampler_empty_raises_witness:
  "tensor_len \<lparr>shape = [0, 2], elem = (\<lambda>_. 0)\<rparr> = Inr 0 \<and>
   (\<exists>s. Sampler_init [(''coef_0'', \<lparr>shape = [0, 2], elem = (\<lambda>_. 0)\<rparr>)] = Inr s \<and>
        num_samples s = 0 \<and> Sampler_call s = Inl RuntimeError)"
  using Sampler_empty_raises [of "\<lparr>shape = [0, 2], elem = (\<lambda>_. 0)\<rparr>" "''coef_0''" "[]"]
  by (simp add: tensor_len_def)

text \<open>
  C8. For a Sampler built from draws in which every site stores \<open>num_samples > 0\<close> draws, a
  call has exactly one equally likely outcome for each index \<open>i\<close> in \<open>[0, num_samples)\<close>,
  namely the dict that maps every site \<open>k\<close> to \<open>samples[k][i]\<close> with that same \<open>i\<close>, and
  the sampler (with its stored samples) is the same object after the call.
\<close>

theorem Sampler_call_joint_draw:
  assumes "Sampler_init smp = Inr s"
    and "\<forall>(k, v) \<in> set smp. tensor_len v = Inr (num_samples s)"
    and "0 < num_samples s"
  shows "Sampler_call s =
           Inr (map (\<lambda>i. (Inr (joint_draw smp i), s)) [0..<num_samples s])"
proof -
  from assms(1) have smp: "samples s = smp"
    by (auto simp: Sampler_init_def split: list.splits sum.splits)
  have "map (\<lambda>i. (select_all smp i, s)) (map int [0..<num_samples s]) =
        map (\<lambda>i. (Inr (joint_draw smp i), s)) [0..<num_samples s]"
    using assms(2) by (simp add: select_all_in_range)
  with assms(3) smp show ?thesis
    by (simp add: Sampler_call_def randint_zero)
qed

theorem Sampler_call_joint_draw_witness:
  "Sampler_init two_draws = Inr \<lparr>samples = two_draws, num_samples = 2\<rparr> \<and>
   Sampler_call \<lparr>samples = two_draws, num_samples = 2\<rparr> =
     Inr (map (\<lambda>i. (Inr (joint_draw two_draws i), \<lparr>samples = two_draws, num_samples = 2\<rparr>))
            [0..<2])"
proof -
  let ?s = "\<lparr>samples = two_draws, num_samples = 2\<rparr>"
  have h1: "Sampler_init two_draws = Inr ?s"
    by (simp add: two_draws_def Sampler_init_def tensor_len_def)
  have h2: "\<forall>(k, v) \<in> set two_draws. tensor_len v = Inr (num_samples ?s)"
    by (simp add: two_draws_def tensor_len_def)
  have h3: "0 < num_samples ?s" by simp
  from Sampler_call_joint_draw [OF h1 h2 h3] h1 show ?thesis by simp
qed

section \<open>Properties of fit_svi\<close>




lemma fit_svi_clear_first:
  "fit_svi svi_step lr num_steps log_every st =
   fit_svi svi_step lr num_steps log_every (clear_param_store st)"
  by (simp add: fit_svi_def clear_param_store_def)



text \<open>
  C10. \<open>fit_svi\<close> clears the global parameter store before anything else, so its result
  and the state it leaves are those of a run started on an empty store: two states of
  Pyro with the same random stream give the same result whatever earlier fits had
  stored, and when no step runs (or the optimizer cannot be built) the store is left
  empty.
\<close>

theorem fit_svi_discards_param_store:
  "fit_svi svi_step lr num_steps log_every st =
     fit_svi svi_step lr num_steps log_every (st\<lparr>param_store := Map.empty\<rparr>) \<and>
   (rng_state st = rng_state st2 \<longrightarrow>
      fit_svi svi_step lr num_steps log_every st = fit_svi svi_step lr num_steps log_every st2) \<and>
   (num_steps \<le> 0 \<longrightarrow>
      param_store (snd (fit_svi svi_step lr num_steps log_every st)) = Map.empty)"
proof -
  have a: "fit_svi svi_step lr num_steps log_every st =
           fit_svi svi_step lr num_steps log_every (st\<lparr>param_store := Map.empty\<rparr>)"
    using fit_svi_clear_first [of svi_step lr num_steps log_every st]
    by (simp add: clear_param_store_def)
  have b: "fit_svi svi_step lr num_steps log_every st = fit_svi svi_step lr num_steps log_every st2"
    if "rng_state st = rng_state st2"
  proof -
    from that have "clear_param_store st = clear_param_store st2"
      by (simp add: clear_param_store_def)
    then show ?thesis
      using fit_svi_clear_first [of svi_step lr num_steps log_every st]
            fit_svi_clear_first [of svi_step lr num_steps log_every st2]
      by simp
  qed
  have c: "param_store (snd (fit_svi svi_step lr num_steps log_every st)) = Map.empty"
    if "num_steps \<le> 0"
    using that by (simp add: fit_svi_def lrd_def clear_param_store_def Let_def)
  from a b c show ?thesis by blast
qed

theorem fit_svi_discards_param_store_witness:
  "rng_state old_fit_state = rng_state fresh_state \<and> (0::int) \<le> 0 \<and>
   fit_svi store_lr_step 1 3 0 old_fit_state = fit_svi store_lr_step 1 3 0 fresh_state \<and>
   param_store (snd (fit_svi store_lr_step 1 0 0 old_fit_state)) = Map.empty"
proof -
  have h: "rng_state old_fit_state = rng_state fresh_state"
    by (simp add: old_fit_state_def fresh_state_def)
  from fit_svi_discards_param_store [of store_lr_step 1 3 0 old_fit_state fresh_state] h
  have a: "fit_svi store_lr_step 1 3 0 old_fit_state = fit_svi store_lr_step 1 3 0 fresh_state"
    by blast
  from fit_svi_discards_param_store [of store_lr_step 1 0 0 old_fit_state fresh_state]
  have b: "param_store (snd (fit_svi store_lr_step 1 0 0 old_fit_state)) = Map.empty"
    by blast
  from h a b show ?thesis by simp
qed

section \<open>Properties of linear_response\<close>













section \<open>Properties of model\<close>

subsection \<open>What each stage returns and which sites it adds\<close>

lemma pyro_sample_trace:
  "snd (pyro_sample \<omega> name d shp obs tr) = tr @ [\<lparr>site_name = name, site_dist = d,
      site_value = fst (pyro_sample \<omega> name d shp obs tr), site_observed = (obs \<noteq> None)\<rparr>]"
  by (simp add: pyro_sample_def Let_def)

lemma pyro_sample_unobserved:
  "fst (pyro_sample \<omega> name d shp None tr) = \<lparr>shape = shp, elem = \<omega> name\<rparr>"
  by (simp add: pyro_sample_def Let_def)

lemma block_shape_Inr:
  "block_shape schema block = Inr shp \<Longrightarrow>
   shp = map (\<lambda>name. length (the (map_of schema name))) block \<and> set block \<subseteq> dom (map_of schema)"
  by (induction block arbitrary: shp) (auto split: option.splits sum.splits)

lemma sample_coefs_trace:
  "\<exists>ext. fst (sample_coefs \<omega> schema l s blocks coefs tr) = tr @ ext \<and>
         (\<forall>n \<in> set (site_names ext). \<exists>rest. n = ''coef_'' @ rest)"
proof (induction blocks arbitrary: coefs tr)
  case Nil
  then show ?case by (simp add: site_names_def)
next
  case (Cons block blocks)
  show ?case
  proof (cases "block_shape schema block")
    case (Inl e)
    then show ?thesis by (simp add: site_names_def)
  next
    case (Inr shp)
    let ?suffix = "block_suffix schema block"
    let ?s1 = "\<lparr>site_name = ''coef_scale_'' @ ?suffix, site_dist = LogNormal l s,
                site_value = \<lparr>shape = [], elem = \<omega> (''coef_scale_'' @ ?suffix)\<rparr>, site_observed = False\<rparr>"
    let ?coef = "\<lparr>shape = shp, elem = \<omega> (''coef_'' @ ?suffix)\<rparr>"
    let ?s2 = "\<lparr>site_name = ''coef_'' @ ?suffix,
                site_dist = Normal (zeros shp) (item \<lparr>shape = [], elem = \<omega> (''coef_scale_'' @ ?suffix)\<rparr>),
                site_value = ?coef, site_observed = False\<rparr>"
    from Cons.IH [of "AList.update (Some block) ?coef coefs" "tr @ [?s1, ?s2]"]
    obtain ext where ext:
      "fst (sample_coefs \<omega> schema l s blocks (AList.update (Some block) ?coef coefs) (tr @ [?s1, ?s2])) =
         (tr @ [?s1, ?s2]) @ ext"
      "\<forall>n \<in> set (site_names ext). \<exists>rest. n = ''coef_'' @ rest"
      by blast
    have "fst (sample_coefs \<omega> schema l s (block # blocks) coefs tr) = tr @ ([?s1, ?s2] @ ext)"
      using Inr ext(1) by (simp add: pyro_sample_def Let_def)
    moreover have "\<forall>n \<in> set (site_names ([?s1, ?s2] @ ext)). \<exists>rest. n = ''coef_'' @ rest"
      using ext(2) by (auto simp: site_names_def)
    ultimately show ?thesis by blast
  qed
qed

lemma sample_coefs_shapes:
  assumes "sample_coefs \<omega> schema l s blocks coefs tr = (tr', Inr coefs')"
    and "\<forall>block t. map_of coefs (Some block) = Some t \<longrightarrow> block_shape schema block = Inr (shape t)"
  shows "(\<forall>block t. map_of coefs' (Some block) = Some t \<longrightarrow> block_shape schema block = Inr (shape t)) \<and>
         (\<forall>block \<in> set blocks. map_of coefs' (Some block) \<noteq> None) \<and>
         (\<forall>key. map_of coefs key \<noteq> None \<longrightarrow> map_of coefs' key \<noteq> None) \<and>
         (map_of coefs None = None \<longrightarrow> map_of coefs' None = None)"
  using assms
proof (induction blocks arbitrary: coefs tr)
  case Nil
  then show ?case by simp
next
  case (Cons block blocks)
  from Cons.prems(1) obtain shp where shp: "block_shape schema block = Inr shp"
    by (cases "block_shape schema block") auto
  let ?suffix = "block_suffix schema block"
  let ?coef = "\<lparr>shape = shp, elem = \<omega> (''coef_'' @ ?suffix)\<rparr>"
  let ?coefs1 = "AList.update (Some block) ?coef coefs"
  from Cons.prems(1) shp obtain tr2 where
    rec: "sample_coefs \<omega> schema l s blocks ?coefs1 tr2 = (tr', Inr coefs')"
    by (simp add: pyro_sample_def Let_def)
  have inv: "\<forall>b t. map_of ?coefs1 (Some b) = Some t \<longrightarrow> block_shape schema b = Inr (shape t)"
    using Cons.prems(2) shp by (auto simp: update_conv')
  from Cons.IH [OF rec inv] have
    a: "\<forall>b t. map_of coefs' (Some b) = Some t \<longrightarrow> block_shape schema b = Inr (shape t)" and
    b: "\<forall>b \<in> set blocks. map_of coefs' (Some b) \<noteq> None" and
    c: "\<forall>key. map_of ?coefs1 key \<noteq> None \<longrightarrow> map_of coefs' key \<noteq> None" and
    d: "map_of ?coefs1 None = None \<longrightarrow> map_of coefs' None = None"
    by blast+
  from c have c1: "map_of coefs' (Some block) \<noteq> None"
    by (simp add: update_conv')
  from c have c2: "\<forall>key. map_of coefs key \<noteq> None \<longrightarrow> map_of coefs' key \<noteq> None"
    by (simp add: update_conv')
  from d have d': "map_of coefs None = None \<longrightarrow> map_of coefs' None = None"
    by (simp add: update_conv')
  from a b c1 c2 d' show ?case by simp
qed

lemma model_coefficients_names:
  "\<exists>ext. site_names (fst (model_coefficients \<omega> schema feature_blocks extra_features)) =
           ''coef_scale_loc'' # ''coef_scale_scale'' # ''coef_scale_'' # ''coef_'' # ext \<and>
         (\<forall>n \<in> set ext. take 4 n = ''coef'')"
proof -
  let ?l = "item \<lparr>shape = [], elem = \<omega> ''coef_scale_loc''\<rparr>"
  let ?s = "item \<lparr>shape = [], elem = \<omega> ''coef_scale_scale''\<rparr>"
  let ?tr2 = "[\<lparr>site_name = ''coef_scale_loc'', site_dist = Normal (scalar (- 2)) 1,
                site_value = \<lparr>shape = [], elem = \<omega> ''coef_scale_loc''\<rparr>, site_observed = False\<rparr>,
               \<lparr>site_name = ''coef_scale_scale'', site_dist = LogNormal 0 1,
                site_value = \<lparr>shape = [], elem = \<omega> ''coef_scale_scale''\<rparr>, site_observed = False\<rparr>]"
  let ?tr4 = "?tr2 @
              [\<lparr>site_name = ''coef_scale_'', site_dist = LogNormal ?l ?s,
                site_value = \<lparr>shape = [], elem = \<omega> ''coef_scale_''\<rparr>, site_observed = False\<rparr>,
               \<lparr>site_name = ''coef_'',
                site_dist = Normal (zeros []) (item \<lparr>shape = [], elem = \<omega> ''coef_scale_''\<rparr>),
                site_value = \<lparr>shape = [], elem = \<omega> ''coef_''\<rparr>, site_observed = False\<rparr>]"
  let ?coefs1 = "AList.update (Some []) \<lparr>shape = [], elem = \<omega> ''coef_''\<rparr> []"
  let ?loop = "sample_coefs \<omega> schema ?l ?s feature_blocks ?coefs1 ?tr4"
  have unfold: "sample_coefs \<omega> schema ?l ?s ([] # feature_blocks) [] ?tr2 = ?loop"
    by (simp add: pyro_sample_def Let_def block_suffix_def)
  from sample_coefs_trace [of \<omega> schema ?l ?s feature_blocks ?coefs1 ?tr4]
  obtain ext where ext: "fst ?loop = ?tr4 @ ext"
    "\<forall>n \<in> set (site_names ext). \<exists>rest. n = ''coef_'' @ rest"
    by blast
  from ext(2) have coef: "\<forall>n \<in> set (site_names ext). take 4 n = ''coef''"
    by auto
  obtain tr3 res where loop:
    "sample_coefs \<omega> schema ?l ?s ([] # feature_blocks) [] ?tr2 = (tr3, res)"
    by (cases "sample_coefs \<omega> schema ?l ?s ([] # feature_blocks) [] ?tr2")
  have "fst (sample_coefs \<omega> schema ?l ?s ([] # feature_blocks) [] ?tr2) = ?tr4 @ ext"
    using ext(1) by (simp only: unfold)
  with loop have tr3: "tr3 = ?tr4 @ ext"
    by (simp only: fst_conv)
  show ?thesis
  proof (cases res)
    case (Inl e)
    with loop tr3 coef show ?thesis
      by (simp add: model_coefficients_def pyro_sample_def Let_def site_names_def
               del: sample_coefs.simps)
  next
    case (Inr coefs)
    show ?thesis
    proof (cases extra_features)
      case None
      with Inr loop tr3 coef show ?thesis
        by (simp add: model_coefficients_def pyro_sample_def Let_def site_names_def
                 del: sample_coefs.simps)
    next
      case (Some x)
      with Inr loop tr3 coef show ?thesis
        by (simp add: model_coefficients_def pyro_sample_def Let_def site_names_def
                 del: sample_coefs.simps)
    qed
  qed
qed

lemma sampled_coefficients_shapes:
  assumes "model_coefficients \<omega> schema feature_blocks extra_features = (tr, Inr coefs)"
  shows "\<forall>block \<in> set ([] # feature_blocks).
           \<exists>t. map_of coefs (Some block) = Some t \<and> block_shape schema block = Inr (shape t)"
proof -
  let ?l = "item \<lparr>shape = [], elem = \<omega> ''coef_scale_loc''\<rparr>"
  let ?s = "item \<lparr>shape = [], elem = \<omega> ''coef_scale_scale''\<rparr>"
  let ?tr2 = "[\<lparr>site_name = ''coef_scale_loc'', site_dist = Normal (scalar (- 2)) 1,
                site_value = \<lparr>shape = [], elem = \<omega> ''coef_scale_loc''\<rparr>, site_observed = False\<rparr>,
               \<lparr>site_name = ''coef_scale_scale'', site_dist = LogNormal 0 1,
                site_value = \<lparr>shape = [], elem = \<omega> ''coef_scale_scale''\<rparr>, site_observed = False\<rparr>]"
  let ?loop = "sample_coefs \<omega> schema ?l ?s ([] # feature_blocks) [] ?tr2"
  from assms obtain tr3 coefs0 where loop: "?loop = (tr3, Inr coefs0)"
    and coefs: "coefs = coefs0 \<or> (\<exists>c. coefs = AList.update None c coefs0)"
    unfolding model_coefficients_def
    by (auto simp: pyro_sample_def Let_def simp del: sample_coefs.simps
             split: prod.splits sum.splits option.splits)
  have "\<forall>block t. map_of ([] :: Coefs) (Some block) = Some t \<longrightarrow>
          block_shape schema block = Inr (shape t)"
    by simp
  from sample_coefs_shapes [OF loop this] have
    a: "\<forall>block t. map_of coefs0 (Some block) = Some t \<longrightarrow> block_shape schema block = Inr (shape t)" and
    b: "\<forall>block \<in> set ([] # feature_blocks). map_of coefs0 (Some block) \<noteq> None"
    by blast+
  from coefs have same: "map_of coefs (Some block) = map_of coefs0 (Some block)" for block
    by (auto simp: update_conv')
  show ?thesis
  proof
    fix block
    assume "block \<in> set ([] # feature_blocks)"
    with b obtain t where "map_of coefs0 (Some block) = Some t"
      by blast
    with a same show "\<exists>t. map_of coefs (Some block) = Some t \<and> block_shape schema block = Inr (shape t)"
      by simp
  qed
qed

lemma model_latents_Inr:
  assumes "model_latents validate \<omega> schema feature_blocks extra_features e max_batch_id =
             (tr, Inr (coefs, response_loc, within_batch_scale, B))"
  shows "\<exists>m tr0. resolve_max_batch_id max_batch_id (batch_ids e) = Inr m \<and> B = 1 + m \<and>
           model_checks validate schema extra_features e = None \<and>
           model_coefficients \<omega> schema feature_blocks extra_features = (tr0, Inr coefs) \<and>
           linear_response_rows schema coefs (sequences e) extra_features 0 = Inr response_loc \<and>
           tr = tr0 @ [\<lparr>site_name = ''within_batch_scale'', site_dist = LogNormal 0 1,
                       site_value = \<lparr>shape = [], elem = \<omega> ''within_batch_scale''\<rparr>,
                       site_observed = False\<rparr>]"
  using assms
  by (auto simp: model_latents_def pyro_sample_def Let_def
           split: sum.splits option.splits prod.splits)

lemma model_latents_names:
  "\<forall>n \<in> set (site_names (fst (model_latents validate \<omega> schema feature_blocks extra_features e
       max_batch_id))). latent_site_name n"
proof -
  from model_coefficients_names [of \<omega> schema feature_blocks extra_features]
  have coef: "\<forall>n \<in> set (site_names (fst (model_coefficients \<omega> schema feature_blocks extra_features))).
                latent_site_name n"
    by (auto simp: latent_site_name_def)
  obtain tr0 res where mc: "model_coefficients \<omega> schema feature_blocks extra_features = (tr0, res)"
    by (cases "model_coefficients \<omega> schema feature_blocks extra_features")
  with coef have "\<forall>n \<in> set (site_names tr0). latent_site_name n"
    by simp
  then show ?thesis
    by (auto simp: model_latents_def mc pyro_sample_def Let_def site_names_def latent_site_name_def
             split: sum.splits option.splits prod.splits)
qed

lemma model_latents_names_Inr:
  assumes "model_latents validate \<omega> schema feature_blocks extra_features e max_batch_id =
             (tr, Inr result)"
  shows "\<exists>ext. site_names tr =
           ''coef_scale_loc'' # ''coef_scale_scale'' # ''coef_scale_'' # ''coef_'' # ext \<and>
           ''within_batch_scale'' \<in> set ext"
proof -
  obtain coefs response_loc within_batch_scale B where
    "result = (coefs, response_loc, within_batch_scale, B)"
    by (cases result)
  with model_latents_Inr assms obtain tr0 where
    mc: "model_coefficients \<omega> schema feature_blocks extra_features = (tr0, Inr coefs)" and
    tr: "tr = tr0 @ [\<lparr>site_name = ''within_batch_scale'', site_dist = LogNormal 0 1,
                      site_value = \<lparr>shape = [], elem = \<omega> ''within_batch_scale''\<rparr>,
                      site_observed = False\<rparr>]"
    by blast
  from model_coefficients_names [of \<omega> schema feature_blocks extra_features] mc
  obtain ext where "site_names tr0 =
      ''coef_scale_loc'' # ''coef_scale_scale'' # ''coef_scale_'' # ''coef_'' # ext"
    by auto
  with tr have "site_names tr =
      ''coef_scale_loc'' # ''coef_scale_scale'' # ''coef_scale_'' # ''coef_'' # (ext @ [''within_batch_scale''])"
    by (simp add: site_names_def)
  then show ?thesis by auto
qed

lemma batch_effect_single:
  "batch_effect \<omega> 1 ids response_loc tr = (tr, Inr response_loc)"
  by (simp add: batch_effect_def)

lemma batch_effect_trace:
  "\<exists>ext. fst (batch_effect \<omega> B ids response_loc tr) = tr @ ext \<and>
         set (site_names ext) \<subseteq> {''across_batch_scale'', ''batch_response''}"
  by (auto simp: batch_effect_def pyro_sample_def Let_def site_names_def split: sum.splits)

lemma likelihood_unknown:
  assumes "response_type \<noteq> ''real''" and "response_type \<noteq> ''unit_interval''"
  shows "likelihood \<omega> e response_type quantization_bins loc scale tr =
           (tr, Inl (if length (sequences e) = 0 then ZeroDivisionError else ValueError))"
  using assms by (simp add: likelihood_def Let_def)

lemma likelihood_real:
  "likelihood \<omega> e ''real'' quantization_bins loc scale tr =
     (if length (sequences e) = 0 then (tr, Inl ZeroDivisionError)
      else (tr @ [\<lparr>site_name = ''responses'', site_dist = Normal (vector loc) scale,
                   site_value = (case responses e of
                                   None \<Rightarrow> \<lparr>shape = [length (sequences e)], elem = \<omega> ''responses''\<rparr>
                                 | Some r \<Rightarrow> vector r),
                   site_observed = (responses e \<noteq> None)\<rparr>], Inr ()))"
  by (cases "responses e") (simp_all add: likelihood_def pyro_sample_def Let_def)


subsection \<open>Running the model on concrete inputs\<close>

lemmas model_eval =
  model_def model_latents_def resolve_max_batch_id_def model_checks_def
  validate_experiment_def model_coefficients_def pyro_sample_def pyro_deterministic_def
  block_suffix_def str_nat.simps scalar_def item_def zeros_def
  linear_response_def linear_response_asserts_def dim_def feature_row_def
  tensor_select_def wrap_index_def batch_effect_def likelihood_def site_names_def Let_def
  two_designs_def ab_schema_def

subsection \<open>Unknown response types\<close>

text \<open>
  C3, as the code has it. For a response type other than \<open>real\<close> and \<open>unit_interval\<close> the
  model never returns normally. The ValueError is raised by the last branch of the
  likelihood: whenever the same call with response type \<open>real\<close> returns, the call with
  the unknown type raises ValueError after it has sampled every site that the \<open>real\<close>
  run samples before its likelihood site \<open>responses\<close>, beginning with the two
  hyperparameters and the scale and coefficient of the constant block and including the
  within-batch scale.
\<close>

theorem model_unknown_response_type:
  assumes "response_type \<noteq> ''real''" and "response_type \<noteq> ''unit_interval''"
  shows "(\<exists>err. snd (model validate \<omega> schema feature_blocks extra_features e max_batch_id
                        response_type quantization_bins) = Inl err) \<and>
         (\<forall>coefs. snd (model validate \<omega> schema feature_blocks extra_features e max_batch_id
                         ''real'' quantization_bins) = Inr coefs \<longrightarrow>
            snd (model validate \<omega> schema feature_blocks extra_features e max_batch_id
                   response_type quantization_bins) = Inl ValueError \<and>
            (\<exists>ext. site_names (fst (model validate \<omega> schema feature_blocks extra_features e
                                       max_batch_id response_type quantization_bins)) =
                      ''coef_scale_loc'' # ''coef_scale_scale'' # ''coef_scale_'' # ''coef_'' # ext \<and>
                    ''within_batch_scale'' \<in> set ext) \<and>
            site_names (fst (model validate \<omega> schema feature_blocks extra_features e max_batch_id
                               ''real'' quantization_bins)) =
              site_names (fst (model validate \<omega> schema feature_blocks extra_features e max_batch_id
                                 response_type quantization_bins)) @ [''responses''])"
proof -
  let ?run = "\<lambda>rt. model validate \<omega> schema feature_blocks extra_features e max_batch_id rt
                      quantization_bins"
  obtain tr res where lat:
    "model_latents validate \<omega> schema feature_blocks extra_features e max_batch_id = (tr, res)"
    by (cases "model_latents validate \<omega> schema feature_blocks extra_features e max_batch_id")
  show ?thesis
  proof (cases res)
    case (Inl err)
    with lat show ?thesis by (simp add: model_def)
  next
    case (Inr result)
    obtain coefs response_loc within_batch_scale B where
      result: "result = (coefs, response_loc, within_batch_scale, B)"
      by (cases result)
    from model_latents_names_Inr lat Inr obtain ext where
      names: "site_names tr =
                ''coef_scale_loc'' # ''coef_scale_scale'' # ''coef_scale_'' # ''coef_'' # ext"
      and wbs: "''within_batch_scale'' \<in> set ext"
      by blast
    obtain tr1 res1 where be: "batch_effect \<omega> B (batch_ids e) response_loc tr = (tr1, res1)"
      by (cases "batch_effect \<omega> B (batch_ids e) response_loc tr")
    from batch_effect_trace [of \<omega> B "batch_ids e" response_loc tr] be
    obtain ext1 where tr1: "tr1 = tr @ ext1"
      by auto
    show ?thesis
    proof (cases res1)
      case (Inl err)
      with lat Inr result be show ?thesis by (simp add: model_def)
    next
      case inr1: (Inr within_batch_loc)
      have unknown: "?run response_type =
          (tr1, Inl (if length (sequences e) = 0 then ZeroDivisionError else ValueError))"
        using lat Inr result be inr1 assms by (simp add: model_def likelihood_unknown)
      show ?thesis
      proof (cases "length (sequences e) = 0")
        case True
        with lat Inr result be inr1 have "?run ''real'' = (tr1, Inl ZeroDivisionError)"
          by (simp add: model_def likelihood_real)
        with unknown True show ?thesis by simp
      next
        case False
        with lat Inr result be inr1 have "site_names (fst (?run ''real'')) = site_names tr1 @ [''responses'']"
          by (simp add: model_def likelihood_real site_names_def)
        moreover from names tr1 have "site_names tr1 =
            ''coef_scale_loc'' # ''coef_scale_scale'' # ''coef_scale_'' # ''coef_'' # (ext @ site_names ext1)"
          by (simp add: site_names_def)
        ultimately show ?thesis
          using unknown False wbs by auto
      qed
    qed
  qed
qed

theorem model_unknown_response_type_witness:
  "''count'' \<noteq> ''real'' \<and> ''count'' \<noteq> ''unit_interval'' \<and>
   (\<exists>coefs. snd (model validate_experiment fixed_draws ab_schema [[''a'']] None two_designs None
                    ''real'' 100) = Inr coefs) \<and>
   snd (model validate_experiment fixed_draws ab_schema [[''a'']] None two_designs None
          ''count'' 100) = Inl ValueError"
proof -
  have h: "''count'' \<noteq> ''real''" "''count'' \<noteq> ''unit_interval''"
    by simp_all
  have r: "\<exists>coefs. snd (model validate_experiment fixed_draws ab_schema [[''a'']] None two_designs None
                          ''real'' 100) = Inr coefs"
    by (simp add: model_eval)
  from model_unknown_response_type [OF h, of validate_experiment fixed_draws ab_schema "[[''a'']]"
      None two_designs None 100] r
  have "snd (model validate_experiment fixed_draws ab_schema [[''a'']] None two_designs None
               ''count'' 100) = Inl ValueError"
    by blast
  with h r show ?thesis by blast
qed

text \<open>
  The claim as stated fails: on a valid experiment the call with response type \<open>count\<close>
  raises its ValueError only after seven latent sites have been sampled.
\<close>

theorem model_unknown_response_type_counterexample:
  "validate_experiment ab_schema two_designs = None \<and>
   snd (model validate_experiment fixed_draws ab_schema [[''a'']] None two_designs None
          ''count'' 100) = Inl ValueError \<and>
   site_names (fst (model validate_experiment fixed_draws ab_schema [[''a'']] None two_designs None
                      ''count'' 100)) =
     [''coef_scale_loc'', ''coef_scale_scale'', ''coef_scale_'', ''coef_'', ''coef_scale_0'',
      ''coef_0'', ''within_batch_scale'']"
  by (simp add: model_eval)

subsection \<open>The batch effect\<close>

lemma likelihood_trace:
  "\<exists>ext. fst (likelihood \<omega> e response_type quantization_bins loc scale tr) = tr @ ext \<and>
         set (site_names ext) \<subseteq> {''responses'', ''logits'', ''quantized_response''}"
  by (auto simp: likelihood_def pyro_sample_def pyro_deterministic_def Let_def site_names_def
           split: option.splits)



lemma resolve_single_batch:
  "ids \<noteq> [] \<Longrightarrow> set ids = {0} \<Longrightarrow> resolve_max_batch_id None ids = Inr 0"
proof -
  assume ne: "ids \<noteq> []" and z: "set ids = {0}"
  have f: "\<forall>i \<in> set bs. i = 0 \<Longrightarrow> fold max bs (0::nat) = 0" for bs
    by (induction bs) simp_all
  from ne obtain b bs where ids: "ids = b # bs"
    by (cases ids) auto
  with z have "b = 0" and "\<forall>i \<in> set bs. i = 0"
    by auto
  with f ids show ?thesis
    by (simp add: resolve_max_batch_id_def)
qed

text \<open>
  C4, as the code has it. The batch effect is skipped exactly when \<open>B = 1 + max_batch_id\<close>
  is \<open>1\<close>, that is when the maximal batch id (the argument \<open>max_batch_id\<close>, by default the
  maximum of \<open>batch_ids\<close>) is \<open>0\<close>. Then the model is the model without a batch-effect
  term: the location of the likelihood is the linear response of the rows, and neither
  the across-batch scale nor the per-batch offsets are sampled.
\<close>

theorem model_single_batch:
  assumes "resolve_max_batch_id max_batch_id (batch_ids e) = Inr 0"
  shows "model validate \<omega> schema feature_blocks extra_features e max_batch_id response_type
           quantization_bins =
         model_without_batch_effect validate \<omega> schema feature_blocks extra_features e max_batch_id
           response_type quantization_bins \<and>
         ''across_batch_scale'' \<notin> set (site_names (fst (model validate \<omega> schema feature_blocks
             extra_features e max_batch_id response_type quantization_bins))) \<and>
         ''batch_response'' \<notin> set (site_names (fst (model validate \<omega> schema feature_blocks
             extra_features e max_batch_id response_type quantization_bins))) \<and>
         (\<forall>tr coefs response_loc within_batch_scale B.
            model_latents validate \<omega> schema feature_blocks extra_features e max_batch_id =
              (tr, Inr (coefs, response_loc, within_batch_scale, B)) \<longrightarrow>
            B = 1 \<and>
            batch_effect \<omega> B (batch_ids e) response_loc tr = (tr, Inr response_loc) \<and>
            linear_response_rows schema coefs (sequences e) extra_features 0 = Inr response_loc)"
proof -
  let ?lat = "model_latents validate \<omega> schema feature_blocks extra_features e max_batch_id"
  have single: "B = 1 \<and> batch_effect \<omega> B (batch_ids e) response_loc tr = (tr, Inr response_loc) \<and>
                linear_response_rows schema coefs (sequences e) extra_features 0 = Inr response_loc"
    if "?lat = (tr, Inr (coefs, response_loc, within_batch_scale, B))"
    for tr coefs response_loc within_batch_scale B
  proof -
    from model_latents_Inr [OF that] assms have "B = 1"
      and "linear_response_rows schema coefs (sequences e) extra_features 0 = Inr response_loc"
      by auto
    then show ?thesis
      by (simp add: batch_effect_def)
  qed
  obtain tr res where lat: "?lat = (tr, res)"
    by (cases ?lat)
  have same: "model validate \<omega> schema feature_blocks extra_features e max_batch_id response_type
                quantization_bins =
              model_without_batch_effect validate \<omega> schema feature_blocks extra_features e
                max_batch_id response_type quantization_bins"
  proof (cases res)
    case (Inl err)
    with lat show ?thesis
      by (simp add: model_def model_without_batch_effect_def)
  next
    case (Inr result)
    obtain coefs response_loc within_batch_scale B where
      "result = (coefs, response_loc, within_batch_scale, B)"
      by (cases result)
    with lat Inr single [of tr coefs response_loc within_batch_scale B] show ?thesis
      by (simp add: model_def model_without_batch_effect_def batch_effect_def)
  qed
  have names: "\<forall>n \<in> set (site_names (fst (model_without_batch_effect validate \<omega> schema feature_blocks
                  extra_features e max_batch_id response_type quantization_bins))).
                 latent_site_name n \<or> n \<in> {''responses'', ''logits'', ''quantized_response''}"
  proof (cases res)
    case (Inl err)
    with lat model_latents_names [of validate \<omega> schema feature_blocks extra_features e max_batch_id]
    show ?thesis
      by (simp add: model_without_batch_effect_def)
  next
    case (Inr result)
    obtain coefs response_loc within_batch_scale B where
      result: "result = (coefs, response_loc, within_batch_scale, B)"
      by (cases result)
    from likelihood_trace [of \<omega> e response_type quantization_bins response_loc within_batch_scale tr]
    obtain ext where
      ext: "fst (likelihood \<omega> e response_type quantization_bins response_loc within_batch_scale tr) =
              tr @ ext"
      "set (site_names ext) \<subseteq> {''responses'', ''logits'', ''quantized_response''}"
      by blast
    have "fst (model_without_batch_effect validate \<omega> schema feature_blocks extra_features e
                 max_batch_id response_type quantization_bins) = tr @ ext"
      using lat Inr result ext(1)
      by (auto simp: model_without_batch_effect_def split: prod.splits sum.splits)
    moreover from lat
      model_latents_names [of validate \<omega> schema feature_blocks extra_features e max_batch_id]
    have "\<forall>n \<in> set (site_names tr). latent_site_name n"
      by simp
    ultimately show ?thesis
      using ext(2) by (auto simp: site_names_def)
  qed
  have "\<not> latent_site_name ''across_batch_scale''" and "\<not> latent_site_name ''batch_response''"
    by (simp_all add: latent_site_name_def)
  with names have
    "''across_batch_scale'' \<notin> set (site_names (fst (model_without_batch_effect validate \<omega> schema
        feature_blocks extra_features e max_batch_id response_type quantization_bins)))"
    "''batch_response'' \<notin> set (site_names (fst (model_without_batch_effect validate \<omega> schema
        feature_blocks extra_features e max_batch_id response_type quantization_bins)))"
    by auto
  with same single show ?thesis
    by simp
qed

theorem model_single_batch_witness:
  "resolve_max_batch_id None (batch_ids two_designs) = Inr 0 \<and>
   model validate_experiment fixed_draws ab_schema [[''a'']] None two_designs None ''real'' 100 =
     model_without_batch_effect validate_experiment fixed_draws ab_schema [[''a'']] None two_designs
       None ''real'' 100 \<and>
   site_names (fst (model validate_experiment fixed_draws ab_schema [[''a'']] None two_designs None
                      ''real'' 100)) =
     [''coef_scale_loc'', ''coef_scale_scale'', ''coef_scale_'', ''coef_'', ''coef_scale_0'',
      ''coef_0'', ''within_batch_scale'', ''responses'']"
proof -
  have h: "resolve_max_batch_id None (batch_ids two_designs) = Inr 0"
    by (simp add: resolve_max_batch_id_def two_designs_def)
  have n: "site_names (fst (model validate_experiment fixed_draws ab_schema [[''a'']] None two_designs
                              None ''real'' 100)) =
     [''coef_scale_loc'', ''coef_scale_scale'', ''coef_scale_'', ''coef_'', ''coef_scale_0'',
      ''coef_0'', ''within_batch_scale'', ''responses'']"
    by (simp add: model_eval vector_def)
  from model_single_batch [OF h, of validate_experiment fixed_draws ab_schema "[[''a'']]" None
      "''real''" 100] h n
  show ?thesis by blast
qed

text \<open>
  The claim as stated fails: the experiment \<open>two_designs\<close> holds exactly one distinct batch
  id, yet with \<open>max_batch_id = 1\<close> the model has \<open>B = 2\<close> and samples the across-batch scale
  and the per-batch offsets.
\<close>

theorem model_single_batch_counterexample:
  "batch_ids two_designs = [0, 0] \<and> validate_experiment ab_schema two_designs = None \<and>
   site_names (fst (model validate_experiment fixed_draws ab_schema [[''a'']] None two_designs
                      (Some 1) ''real'' 100)) =
     [''coef_scale_loc'', ''coef_scale_scale'', ''coef_scale_'', ''coef_'', ''coef_scale_0'',
      ''coef_0'', ''within_batch_scale'', ''across_batch_scale'', ''batch_response'', ''responses'']"
  by (simp add: model_eval vector_def)

subsection \<open>The simulated responses\<close>


lemma model_Inr:
  assumes "snd (model validate \<omega> schema feature_blocks extra_features e max_batch_id response_type
                  quantization_bins) = Inr coefs"
  shows "\<exists>tr response_loc within_batch_scale B tr1 within_batch_loc tr2.
           model_latents validate \<omega> schema feature_blocks extra_features e max_batch_id =
             (tr, Inr (coefs, response_loc, within_batch_scale, B)) \<and>
           batch_effect \<omega> B (batch_ids e) response_loc tr = (tr1, Inr within_batch_loc) \<and>
           likelihood \<omega> e response_type quantization_bins within_batch_loc within_batch_scale tr1 =
             (tr2, Inr ()) \<and>
           fst (model validate \<omega> schema feature_blocks extra_features e max_batch_id response_type
                  quantization_bins) = tr2"
  using assms
  by (auto simp: model_def split: prod.splits sum.splits)



subsection \<open>Shapes of the coefficients and early failures\<close>

lemma block_shape_length:
  "block_shape schema block = Inr shp \<Longrightarrow> length shp = length block"
  by (induction block arbitrary: shp) (auto split: option.splits sum.splits)

lemma block_shape_Inl:
  "block_shape schema block = Inl err \<Longrightarrow> err = KeyError"
  by (induction block) (auto split: option.splits sum.splits)

lemma sample_coefs_Inl:
  "snd (sample_coefs \<omega> schema l s blocks coefs tr) = Inl err \<Longrightarrow> err = KeyError"
proof (induction blocks arbitrary: coefs tr)
  case Nil
  then show ?case by simp
next
  case (Cons block blocks)
  show ?case
  proof (cases "block_shape schema block")
    case (Inl e)
    with Cons.prems block_shape_Inl [OF Inl] show ?thesis
      by simp
  next
    case (Inr shp)
    with Cons.prems Cons.IH show ?thesis
      by (simp add: pyro_sample_def Let_def)
  qed
qed

lemma sample_coefs_unknown_variable:
  assumes "block \<in> set blocks" and "\<not> set block \<subseteq> fst ` set schema"
    and "\<forall>b t. map_of coefs (Some b) = Some t \<longrightarrow> block_shape schema b = Inr (shape t)"
  shows "snd (sample_coefs \<omega> schema l s blocks coefs tr) = Inl KeyError"
proof (cases "sample_coefs \<omega> schema l s blocks coefs tr")
  case (Pair tr' res)
  show ?thesis
  proof (cases res)
    case (Inl err)
    with Pair sample_coefs_Inl [of \<omega> schema l s blocks coefs tr err] show ?thesis
      by simp
  next
    case (Inr coefs')
    with Pair have run: "sample_coefs \<omega> schema l s blocks coefs tr = (tr', Inr coefs')"
      by simp
    note sh = sample_coefs_shapes [OF run assms(3)]
    from sh assms(1) obtain t where t: "map_of coefs' (Some block) = Some t"
      by blast
    with sh have "block_shape schema block = Inr (shape t)"
      by blast
    from block_shape_Inr [OF this] have "set block \<subseteq> fst ` set schema"
      by (simp add: dom_map_of_conv_image_fst)
    with assms(2) show ?thesis by simp
  qed
qed

lemma model_coefficients_unknown_variable:
  assumes "block \<in> set feature_blocks" and "\<not> set block \<subseteq> fst ` set schema"
  shows "snd (model_coefficients \<omega> schema feature_blocks extra_features) = Inl KeyError"
proof -
  let ?l = "item \<lparr>shape = [], elem = \<omega> ''coef_scale_loc''\<rparr>"
  let ?s = "item \<lparr>shape = [], elem = \<omega> ''coef_scale_scale''\<rparr>"
  let ?tr2 = "[\<lparr>site_name = ''coef_scale_loc'', site_dist = Normal (scalar (- 2)) 1,
                site_value = \<lparr>shape = [], elem = \<omega> ''coef_scale_loc''\<rparr>, site_observed = False\<rparr>,
               \<lparr>site_name = ''coef_scale_scale'', site_dist = LogNormal 0 1,
                site_value = \<lparr>shape = [], elem = \<omega> ''coef_scale_scale''\<rparr>, site_observed = False\<rparr>]"
  have "\<forall>b t. map_of ([] :: Coefs) (Some b) = Some t \<longrightarrow> block_shape schema b = Inr (shape t)"
    by simp
  moreover from assms(1) have "block \<in> set ([] # feature_blocks)"
    by simp
  ultimately have "snd (sample_coefs \<omega> schema ?l ?s ([] # feature_blocks) [] ?tr2) = Inl KeyError"
    using assms(2) by (rule sample_coefs_unknown_variable [rotated 2])
  then show ?thesis
    unfolding model_coefficients_def
    by (auto simp: pyro_sample_def Let_def simp del: sample_coefs.simps
             split: prod.splits sum.splits)
qed

lemma resolve_max_batch_id_Inr:
  "max_batch_id \<noteq> None \<or> ids \<noteq> [] \<Longrightarrow> \<exists>m. resolve_max_batch_id max_batch_id ids = Inr m"
  by (cases max_batch_id; cases ids) (simp_all add: resolve_max_batch_id_def)

text \<open>
  C6, as the code has it. Whenever the model returns, the coefficient tensor of every
  feature block, the constant block included, has one dimension per variable of the
  block, sized to the domain of that variable. Before anything is sampled (the trace is
  empty) the model raises: the RuntimeError of \<open>batch_ids.max()\<close> when \<open>max_batch_id\<close> is
  absent and \<open>batch_ids\<close> is empty; otherwise the error of \<open>validate\<close> when it rejects the
  experiment; otherwise an AssertionError when the extra features are not 2-dimensional
  with one row per design. A feature block that names a variable the schema lacks is
  found later: with these checks passed the model raises KeyError after it has sampled
  the two hyperparameters and the scale and coefficient of the constant block.
\<close>

theorem model_coefficient_shapes:
  "(\<forall>coefs. snd (model validate \<omega> schema feature_blocks extra_features e max_batch_id
                   response_type quantization_bins) = Inr coefs \<longrightarrow>
      (\<forall>block \<in> set ([] # feature_blocks).
         \<exists>t. map_of coefs (Some block) = Some t \<and> dim t = length block \<and>
             shape t = map (\<lambda>name. length (the (map_of schema name))) block \<and>
             set block \<subseteq> dom (map_of schema))) \<and>
   (max_batch_id = None \<and> batch_ids e = [] \<longrightarrow>
      model validate \<omega> schema feature_blocks extra_features e max_batch_id
        response_type quantization_bins = ([], Inl RuntimeError)) \<and>
   (max_batch_id \<noteq> None \<or> batch_ids e \<noteq> [] \<longrightarrow>
      (\<forall>err. validate schema e = Some err \<longrightarrow>
         model validate \<omega> schema feature_blocks extra_features e max_batch_id
           response_type quantization_bins = ([], Inl err)) \<and>
      (validate schema e = None \<and>
       (\<exists>x. extra_features = Some x \<and> (dim x \<noteq> 2 \<or> hd (shape x) \<noteq> length (sequences e))) \<longrightarrow>
         model validate \<omega> schema feature_blocks extra_features e max_batch_id
           response_type quantization_bins = ([], Inl AssertionError)) \<and>
      (model_checks validate schema extra_features e = None \<and>
       (\<exists>block \<in> set feature_blocks. \<not> set block \<subseteq> fst ` set schema) \<longrightarrow>
         snd (model validate \<omega> schema feature_blocks extra_features e max_batch_id
                response_type quantization_bins) = Inl KeyError \<and>
         (\<exists>ext. site_names (fst (model validate \<omega> schema feature_blocks extra_features e
                                    max_batch_id response_type quantization_bins)) =
                  ''coef_scale_loc'' # ''coef_scale_scale'' # ''coef_scale_'' # ''coef_'' # ext)))"
proof -
  let ?run = "model validate \<omega> schema feature_blocks extra_features e max_batch_id
                response_type quantization_bins"
  have shapes: "\<exists>t. map_of coefs (Some block) = Some t \<and> dim t = length block \<and>
                    shape t = map (\<lambda>name. length (the (map_of schema name))) block \<and>
                    set block \<subseteq> dom (map_of schema)"
    if run: "snd ?run = Inr coefs"
      and block: "block \<in> set ([] # feature_blocks)" for coefs block
  proof -
    from model_Inr [OF run] obtain tr response_loc within_batch_scale B where
      "model_latents validate \<omega> schema feature_blocks extra_features e max_batch_id =
         (tr, Inr (coefs, response_loc, within_batch_scale, B))"
      by blast
    from model_latents_Inr [OF this] obtain tr0 where
      "model_coefficients \<omega> schema feature_blocks extra_features = (tr0, Inr coefs)"
      by blast
    from sampled_coefficients_shapes [OF this] block obtain t where
      t: "map_of coefs (Some block) = Some t" and bs: "block_shape schema block = Inr (shape t)"
      by blast
    from block_shape_Inr [OF bs] block_shape_length [OF bs] t show ?thesis
      by (simp add: dim_def)
  qed
  have empty: "?run = ([], Inl RuntimeError)" if "max_batch_id = None \<and> batch_ids e = []"
    using that by (simp add: model_def model_latents_def resolve_max_batch_id_def)
  have rejected: "?run = ([], Inl err)"
    if ok: "max_batch_id \<noteq> None \<or> batch_ids e \<noteq> []" and v: "validate schema e = Some err" for err
  proof -
    from resolve_max_batch_id_Inr [OF ok] obtain m where
      "resolve_max_batch_id max_batch_id (batch_ids e) = Inr m"
      by blast
    with v show ?thesis
      by (simp add: model_def model_latents_def model_checks_def)
  qed
  have features: "?run = ([], Inl AssertionError)"
    if ok: "max_batch_id \<noteq> None \<or> batch_ids e \<noteq> []" and v: "validate schema e = None"
      and x: "\<exists>x. extra_features = Some x \<and> (dim x \<noteq> 2 \<or> hd (shape x) \<noteq> length (sequences e))"
  proof -
    from resolve_max_batch_id_Inr [OF ok] obtain m where
      m: "resolve_max_batch_id max_batch_id (batch_ids e) = Inr m"
      by blast
    from x obtain x' where "extra_features = Some x'"
      "dim x' \<noteq> 2 \<or> hd (shape x') \<noteq> length (sequences e)"
      by blast
    with v have "model_checks validate schema extra_features e = Some AssertionError"
      by (auto simp: model_checks_def)
    with m show ?thesis
      by (simp add: model_def model_latents_def)
  qed
  have late: "snd ?run = Inl KeyError \<and>
              (\<exists>ext. site_names (fst ?run) =
                 ''coef_scale_loc'' # ''coef_scale_scale'' # ''coef_scale_'' # ''coef_'' # ext)"
    if ok: "max_batch_id \<noteq> None \<or> batch_ids e \<noteq> []"
      and checks: "model_checks validate schema extra_features e = None"
      and bad: "\<exists>block \<in> set feature_blocks. \<not> set block \<subseteq> fst ` set schema"
  proof -
    from bad obtain block where "block \<in> set feature_blocks" "\<not> set block \<subseteq> fst ` set schema"
      by blast
    then have key: "snd (model_coefficients \<omega> schema feature_blocks extra_features) = Inl KeyError"
      by (rule model_coefficients_unknown_variable)
    obtain tr where mc: "model_coefficients \<omega> schema feature_blocks extra_features = (tr, Inl KeyError)"
      using key by (cases "model_coefficients \<omega> schema feature_blocks extra_features") simp
    from resolve_max_batch_id_Inr [OF ok] obtain m where
      "resolve_max_batch_id max_batch_id (batch_ids e) = Inr m"
      by blast
    with checks mc have "?run = (tr, Inl KeyError)"
      by (simp add: model_def model_latents_def)
    moreover from model_coefficients_names [of \<omega> schema feature_blocks extra_features] mc
    obtain ext where "site_names tr =
        ''coef_scale_loc'' # ''coef_scale_scale'' # ''coef_scale_'' # ''coef_'' # ext"
      by auto
    ultimately show ?thesis by simp
  qed
  from shapes empty rejected features late show ?thesis
    by blast
qed

theorem model_coefficient_shapes_witness:
  "(\<exists>coefs t. snd (model validate_experiment fixed_draws ab_schema [[''a'', ''b'']] None two_designs
                      None ''real'' 100) = Inr coefs \<and>
              map_of coefs (Some [''a'', ''b'']) = Some t \<and> dim t = 2 \<and> shape t = [2, 2]) \<and>
   batch_ids bad_designs \<noteq> [] \<and>
   validate_experiment ab_schema bad_designs = Some AssertionError \<and>
   model validate_experiment fixed_draws ab_schema [[''a'', ''b'']] None bad_designs None
     ''real'' 100 = ([], Inl AssertionError) \<and>
   model validate_experiment fixed_draws ab_schema [[''a'', ''b'']] None
     \<lparr>sequences = [], batch_ids = [], responses = None\<rparr> None ''real'' 100 = ([], Inl RuntimeError) \<and>
   model validate_experiment fixed_draws ab_schema [[''a'', ''b'']]
     (Some \<lparr>shape = [3], elem = (\<lambda>idx. 0)\<rparr>) two_designs None ''real'' 100 =
     ([], Inl AssertionError) \<and>
   snd (model validate_experiment fixed_draws ab_schema [[''a''], [''a'', ''z'']] None two_designs
          None ''real'' 100) = Inl KeyError"
proof -
  have "\<exists>coefs. snd (model validate_experiment fixed_draws ab_schema [[''a'', ''b'']] None two_designs
                       None ''real'' 100) = Inr coefs"
    by (simp add: model_eval)
  then obtain coefs where r:
    "snd (model validate_experiment fixed_draws ab_schema [[''a'', ''b'']] None two_designs
            None ''real'' 100) = Inr coefs"
    by blast
  have b: "batch_ids bad_designs \<noteq> []" "batch_ids two_designs \<noteq> []"
    by (simp_all add: bad_designs_def two_designs_def)
  have v: "validate_experiment ab_schema bad_designs = Some AssertionError"
    by (simp add: validate_experiment_def bad_designs_def ab_schema_def)
  have v2: "validate_experiment ab_schema two_designs = None"
    by (simp add: validate_experiment_def two_designs_def ab_schema_def)
  have f: "\<exists>x. Some \<lparr>shape = [3], elem = (\<lambda>idx. 0)\<rparr> = Some x \<and>
               (dim x \<noteq> 2 \<or> hd (shape x) \<noteq> length (sequences two_designs))"
    by (simp add: dim_def)
  have n: "batch_ids \<lparr>sequences = [], batch_ids = [], responses = None\<rparr> = []"
    by simp
  from model_coefficient_shapes [where validate = validate_experiment and \<omega> = fixed_draws
      and schema = ab_schema and feature_blocks = "[[''a'', ''b'']]" and extra_features = None
      and e = two_designs and max_batch_id = None and response_type = "''real''"
      and quantization_bins = 100] r
  obtain t where "map_of coefs (Some [''a'', ''b'']) = Some t" "dim t = length [''a'', ''b'']"
    "shape t = map (\<lambda>name. length (the (map_of ab_schema name))) [''a'', ''b'']"
    by auto
  then have c1: "map_of coefs (Some [''a'', ''b'']) = Some t \<and> dim t = 2 \<and> shape t = [2, 2]"
    by (simp add: ab_schema_def)
  from model_coefficient_shapes [where validate = validate_experiment and \<omega> = fixed_draws
      and schema = ab_schema and feature_blocks = "[[''a'', ''b'']]" and extra_features = None
      and e = bad_designs and max_batch_id = None and response_type = "''real''"
      and quantization_bins = 100] b(1) v
  have c2: "model validate_experiment fixed_draws ab_schema [[''a'', ''b'']] None bad_designs None
               ''real'' 100 = ([], Inl AssertionError)"
    by blast
  from model_coefficient_shapes [where validate = validate_experiment and \<omega> = fixed_draws
      and schema = ab_schema and feature_blocks = "[[''a'', ''b'']]" and extra_features = None
      and e = "\<lparr>sequences = [], batch_ids = [], responses = None\<rparr>" and max_batch_id = None
      and response_type = "''real''" and quantization_bins = 100] n
  have c3: "model validate_experiment fixed_draws ab_schema [[''a'', ''b'']] None
     \<lparr>sequences = [], batch_ids = [], responses = None\<rparr> None ''real'' 100 = ([], Inl RuntimeError)"
    by blast
  from model_coefficient_shapes [where validate = validate_experiment and \<omega> = fixed_draws
      and schema = ab_schema and feature_blocks = "[[''a'', ''b'']]"
      and extra_features = "Some \<lparr>shape = [3], elem = (\<lambda>idx. 0)\<rparr>"
      and e = two_designs and max_batch_id = None and response_type = "''real''"
      and quantization_bins = 100] b(2) v2 f
  have c4: "model validate_experiment fixed_draws ab_schema [[''a'', ''b'']]
     (Some \<lparr>shape = [3], elem = (\<lambda>idx. 0)\<rparr>) two_designs None ''real'' 100 =
     ([], Inl AssertionError)"
    by blast
  have k: "model_checks validate_experiment ab_schema None two_designs = None"
    using v2 by (simp add: model_checks_def)
  have z: "\<exists>block \<in> set [[''a''], [''a'', ''z'']]. \<not> set block \<subseteq> fst ` set ab_schema"
    by (simp add: ab_schema_def)
  from model_coefficient_shapes [where validate = validate_experiment and \<omega> = fixed_draws
      and schema = ab_schema and feature_blocks = "[[''a''], [''a'', ''z'']]"
      and extra_features = None and e = two_designs and max_batch_id = None
      and response_type = "''real''" and quantization_bins = 100] b(2) k z
  have c5: "snd (model validate_experiment fixed_draws ab_schema [[''a''], [''a'', ''z'']] None
                   two_designs None ''real'' 100) = Inl KeyError"
    by blast
  from r c1 b(1) v c2 c3 c4 c5 show ?thesis
    by blast
qed

text \<open>
  The claim as stated fails: a feature block that names a variable the schema lacks is a
  mismatch between schema and feature blocks, yet on a valid experiment the model raises
  (a KeyError) only after it has sampled four sites.
\<close>

theorem model_coefficient_shapes_counterexample:
  "validate_experiment ab_schema two_designs = None \<and>
   snd (model validate_experiment fixed_draws ab_schema [[''c'']] None two_designs None
          ''real'' 100) = Inl KeyError \<and>
   site_names (fst (model validate_experiment fixed_draws ab_schema [[''c'']] None two_designs None
                      ''real'' 100)) =
     [''coef_scale_loc'', ''coef_scale_scale'', ''coef_scale_'', ''coef_'']"
  by (simp add: model_eval)

section \<open>Properties of update_experiment\<close>

lemma lookup_ids_Inr:
  "\<forall>d \<in> set ds. d \<in> dom m \<Longrightarrow> lookup_ids m ds = Inr (map (\<lambda>d. the (m d)) ds)"
  by (induction ds) auto

lemma index_rows_Inr:
  "\<forall>i \<in> set ids. i < length rows \<Longrightarrow> index_rows rows ids = Inr (map (\<lambda>i. rows ! i) ids)"
  by (induction ids) auto

lemma cat_rows_Inr:
  assumes "\<forall>r \<in> set a \<union> set b. length r = w"
  shows "cat_rows a b = Inr (a @ b)"
proof (cases "a @ b")
  case Nil
  then show ?thesis by (simp add: cat_rows_def)
next
  case (Cons r rs)
  then have "set (r # rs) = set a \<union> set b"
    by (metis set_append)
  with assms have "length r = w" and "\<forall>r' \<in> set rs. length r' = w"
    by auto
  then have "list_all (\<lambda>r'. length r' = length r) rs"
    by (simp add: list_all_iff)
  with Cons show ?thesis
    by (simp add: cat_rows_def)
qed

text \<open>
  C2, as the code has it. For a finite design of \<open>k\<close> sequences that the dataset knows
  (and rows of one width \<open>w\<close>), \<open>update_experiment\<close> returns the old experiment followed by
  \<open>k\<close> new rows: the old sequences, batch ids and responses are a prefix of the new
  ones, every column grows by \<open>k\<close>, the new rows are the dataset's rows of the design in
  sorted order, and every new row gets batch id \<open>0\<close>.
\<close>

theorem update_experiment_appends:
  assumes "finite design"
    and "\<forall>d \<in> design. \<exists>i. seq_to_id data d = Some i \<and>
           i < length (data_sequences data) \<and> i < length (data_responses data)"
    and "\<forall>r \<in> set (sequences e) \<union> set (data_sequences data). length r = w"
  shows "\<exists>e'. update_experiment e design data = Inr e' \<and>
           sequences e' = sequences e @
             map (\<lambda>d. data_sequences data ! the (seq_to_id data d)) (sorted_list_of_set design) \<and>
           batch_ids e' = batch_ids e @ replicate (card design) 0 \<and>
           responses e' = map_option (\<lambda>r. r @
             map (\<lambda>d. data_responses data ! the (seq_to_id data d)) (sorted_list_of_set design))
             (responses e) \<and>
           length (sequences e') = length (sequences e) + card design \<and>
           length (batch_ids e') = length (batch_ids e) + card design \<and>
           take (length (sequences e)) (sequences e') = sequences e \<and>
           take (length (batch_ids e)) (batch_ids e') = batch_ids e \<and>
           drop (length (batch_ids e)) (batch_ids e') = replicate (card design) 0"
proof -
  let ?ds = "sorted_list_of_set design"
  let ?ids = "map (\<lambda>d. the (seq_to_id data d)) ?ds"
  from assms(1) have set_ds: "set ?ds = design" and len_ds: "length ?ds = card design"
    by simp_all
  from assms(2) set_ds have "\<forall>d \<in> set ?ds. d \<in> dom (seq_to_id data)"
    by auto
  then have ids: "lookup_ids (seq_to_id data) ?ds = Inr ?ids"
    by (rule lookup_ids_Inr)
  from assms(2) set_ds have in_seq: "\<forall>i \<in> set ?ids. i < length (data_sequences data)"
    and in_resp: "\<forall>i \<in> set ?ids. i < length (data_responses data)"
    by fastforce+
  have seqs: "index_rows (data_sequences data) ?ids = Inr (map (\<lambda>i. data_sequences data ! i) ?ids)"
    using in_seq by (rule index_rows_Inr)
  have resps: "index_rows (data_responses data) ?ids = Inr (map (\<lambda>i. data_responses data ! i) ?ids)"
    using in_resp by (rule index_rows_Inr)
  from in_seq have "set (map (\<lambda>i. data_sequences data ! i) ?ids) \<subseteq> set (data_sequences data)"
    by auto
  with assms(3)
  have "\<forall>r \<in> set (sequences e) \<union> set (map (\<lambda>i. data_sequences data ! i) ?ids). length r = w"
    by blast
  then have cat: "cat_rows (sequences e) (map (\<lambda>i. data_sequences data ! i) ?ids) =
                   Inr (sequences e @ map (\<lambda>i. data_sequences data ! i) ?ids)"
    by (rule cat_rows_Inr)
  from cat have cat': "cat_rows (sequences e) (map (\<lambda>d. data_sequences data ! the (seq_to_id data d)) ?ds) =
                   Inr (sequences e @ map (\<lambda>d. data_sequences data ! the (seq_to_id data d)) ?ds)"
    by (simp add: comp_def)
  show ?thesis
    by (simp add: update_experiment_def ids seqs resps cat' len_ds comp_def)
qed

theorem update_experiment_appends_witness:
  "finite {[1, 0], [0, 1 :: int]} \<and>
   (\<exists>e'. update_experiment tiny_start {[1, 0], [0, 1]} tiny_data = Inr e' \<and>
      sequences e' = [[0, 0], [0, 1], [1, 0]] \<and> batch_ids e' = [0, 0, 0] \<and>
      responses e' = Some [1 / 10, 9 / 10, 1 / 2])"
proof -
  have h1: "finite {[1, 0], [0, 1 :: int]}" by simp
  have h2: "\<forall>d \<in> {[1, 0], [0, 1]}. \<exists>i. seq_to_id tiny_data d = Some i \<and>
              i < length (data_sequences tiny_data) \<and> i < length (data_responses tiny_data)"
    by (simp add: tiny_data_def)
  have h3: "\<forall>r \<in> set (sequences tiny_start) \<union> set (data_sequences tiny_data). length r = 2"
    by (simp add: tiny_data_def tiny_start_def)
  have s: "sorted_list_of_set {[1, 0], [0, 1 :: int]} = [[0, 1], [1, 0]]"
    by (simp add: sorted_list_of_set_sort_remdups)
  from update_experiment_appends [OF h1 h2 h3] obtain e' where
    "update_experiment tiny_start {[1, 0], [0, 1]} tiny_data = Inr e'"
    "sequences e' = sequences tiny_start @
       map (\<lambda>d. data_sequences tiny_data ! the (seq_to_id tiny_data d)) (sorted_list_of_set {[1, 0], [0, 1]})"
    "batch_ids e' = batch_ids tiny_start @ replicate (card {[1, 0], [0, 1 :: int]}) 0"
    "responses e' = map_option (\<lambda>r. r @
       map (\<lambda>d. data_responses tiny_data ! the (seq_to_id tiny_data d)) (sorted_list_of_set {[1, 0], [0, 1]}))
       (responses tiny_start)"
    by blast
  then show ?thesis
    using h1 by (simp add: s tiny_data_def tiny_start_def numeral_2_eq_2)
qed

text \<open>
  The claim as stated fails: adding the design \<open>{(0, 1)}\<close> to an experiment whose only
  row has batch id \<open>0\<close> gives the new row batch id \<open>0\<close> again, which is not greater than
  the batch id already present.
\<close>

theorem update_experiment_batch_ids_counterexample:
  "batch_ids tiny_start = [0] \<and>
   update_experiment tiny_start {[0, 1]} tiny_data =
     Inr \<lparr>sequences = [[0, 0], [0, 1]], batch_ids = [0, 0], responses = Some [1 / 10, 9 / 10]\<rparr> \<and>
   \<not> (batch_ids tiny_start ! 0 < [0, 0 :: nat] ! 1)"
  by (simp add: update_experiment_def tiny_start_def tiny_data_def cat_rows_def)

end
